theory Spec2Isabelle
  imports Complex_Main "HOL-Library.List_Lexorder" "HOL-Library.Char_ord" "HOL-Library.Log_Nat"
begin

section \<open>The unit converter of lec2\_flask.py\<close>

text \<open>
  The handler \<open>convert\<close> of \<^verbatim>\<open>lec2_flask.py\<close> reads a decoded JSON body, validates
  its three fields, looks both units up in two static dictionaries and applies one of
  six formulas. The model follows the handler line by line.

  Modelling conventions:
  \<^item> A Python \<open>str\<close> is the list of its code points; code points below 256 are
    covered (\<open>string\<close> is a list of 8-bit characters).
  \<^item> A Python \<open>float\<close> is an IEEE 754 binary64 value: a rational number that the
    format represents, or one of \<open>inf\<close>, \<open>-inf\<close>, \<open>nan\<close>. Every operation returns
    the exact result rounded to the nearest binary64 value, a tie going to the even
    significand, and a result beyond the largest finite value becomes an infinity
    (\<open>binary64\<close> below). A float is taken up to \<open>==\<close>: \<open>0.0\<close> and \<open>-0.0\<close> are one
    value.
  \<^item> \<open>float(s)\<close> on a string \<open>s\<close> is the interpreter's own parser; it is a parameter
    \<open>float_of_str\<close> of the model, \<open>None\<close> where the parser raises.
  \<^item> A response is a status code and a JSON body; an exception that leaves the handler
    is the outcome \<open>InternalServerError\<close>.
\<close>

subsection \<open>Values\<close>

datatype pyfloat = Finite rat | PInf | NInf | NaN

datatype json =
    JNull
  | JBool bool
  | JInt int
  | JFloat pyfloat
  | JStr string
  | JArr "json list"
  | JObj "(string \<times> json) list"

datatype py_exception = ZeroDivisionError

datatype response = Response nat json | InternalServerError

record request =
  is_json :: bool
  get_json :: json

subsection \<open>Strings: \<open>lower\<close> and \<open>strip\<close>\<close>

definition char_lower :: "char \<Rightarrow> char" where
  "char_lower c =
     (let n = (of_char c :: nat)
      in if (65 \<le> n \<and> n \<le> 90) \<or> (192 \<le> n \<and> n \<le> 222 \<and> n \<noteq> 215)
         then char_of (n + 32) else c)"

definition lower :: "string \<Rightarrow> string" where
  "lower s = map char_lower s"

definition is_space :: "char \<Rightarrow> bool" where
  "is_space c = ((of_char c :: nat) \<in> {9, 10, 11, 12, 13, 28, 29, 30, 31, 32, 133, 160})"

definition strip :: "string \<Rightarrow> string" where
  "strip s = rev (dropWhile is_space (rev (dropWhile is_space s)))"

subsection \<open>Floats\<close>

text \<open>
  Rounding to the nearest integer, a tie going to the even one.
\<close>

definition round_half_even :: "rat \<Rightarrow> int" where
  "round_half_even x =
     (let f = \<lfloor>x\<rfloor>; d = x - of_int f
      in if d < 1 / 2 then f else if 1 / 2 < d then f + 1 else if even f then f else f + 1)"

definition float_sgn :: "pyfloat \<Rightarrow> rat" where
  "float_sgn x = (case x of Finite a \<Rightarrow> sgn a | PInf \<Rightarrow> 1 | NInf \<Rightarrow> - 1 | NaN \<Rightarrow> 0)"

definition signed_inf :: "rat \<Rightarrow> pyfloat" where
  "signed_inf s = (if 0 < s then PInf else if s < 0 then NInf else NaN)"

text \<open>
  The binary exponent of a number other than zero: the \<open>e\<close> with
  \<open>2\<^sup>e \<le> \<bar>x\<bar> < 2\<^sup>e\<^sup>+\<^sup>1\<close>, found from the bit lengths of numerator and denominator.
\<close>

definition float_exponent :: "rat \<Rightarrow> int" where
  "float_exponent x =
     (let (p, q) = quotient_of \<bar>x\<bar>; e = bitlen p - bitlen q
      in if \<bar>x\<bar> < 2 powi e then e - 1 else e)"

text \<open>
  The binary64 value of an exact result: the multiple of the spacing \<open>u\<close> nearest to
  \<open>x\<close>, a tie going to the even multiple. The spacing is \<open>2\<^sup>e\<^sup>-\<^sup>5\<^sup>2\<close> for a significand
  of 53 bits, and \<open>2\<^sup>-\<^sup>1\<^sup>0\<^sup>7\<^sup>4\<close> below the smallest normal number \<open>2\<^sup>-\<^sup>1\<^sup>0\<^sup>2\<^sup>2\<close>; a rounded
  value of magnitude \<open>2\<^sup>1\<^sup>0\<^sup>2\<^sup>4\<close> or more overflows to an infinity.
\<close>

definition binary64 :: "rat \<Rightarrow> pyfloat" where
  "binary64 x =
     (let u = 2 powi (max (float_exponent x) (- 1022) - 52);
          r = of_int (round_half_even (x / u)) * u
      in if of_int (2 ^ 1024) \<le> \<bar>r\<bar> then signed_inf r else Finite r)"

text \<open>\<open>x * y\<close>: never raises.\<close>

definition float_mul :: "pyfloat \<Rightarrow> pyfloat \<Rightarrow> pyfloat" where
  "float_mul x y =
     (case (x, y) of
        (Finite a, Finite b) \<Rightarrow> binary64 (a * b)
      | (NaN, _) \<Rightarrow> NaN
      | (_, NaN) \<Rightarrow> NaN
      | _ \<Rightarrow> signed_inf (float_sgn x * float_sgn y))"

text \<open>\<open>x + y\<close> and \<open>x - y\<close>: never raise.\<close>

definition float_add :: "pyfloat \<Rightarrow> pyfloat \<Rightarrow> pyfloat" where
  "float_add x y =
     (case (x, y) of
        (Finite a, Finite b) \<Rightarrow> binary64 (a + b)
      | (NaN, _) \<Rightarrow> NaN
      | (_, NaN) \<Rightarrow> NaN
      | (PInf, NInf) \<Rightarrow> NaN
      | (NInf, PInf) \<Rightarrow> NaN
      | (PInf, _) \<Rightarrow> PInf
      | (NInf, _) \<Rightarrow> NInf
      | (_, PInf) \<Rightarrow> PInf
      | (_, NInf) \<Rightarrow> NInf)"

definition float_neg :: "pyfloat \<Rightarrow> pyfloat" where
  "float_neg x = (case x of Finite a \<Rightarrow> Finite (- a) | PInf \<Rightarrow> NInf | NInf \<Rightarrow> PInf | NaN \<Rightarrow> NaN)"

definition float_sub :: "pyfloat \<Rightarrow> pyfloat \<Rightarrow> pyfloat" where
  "float_sub x y = float_add x (float_neg y)"

text \<open>
  \<open>x / y\<close>: raises ZeroDivisionError when \<open>y\<close> is zero; \<open>float_div\<close> is the quotient by
  a divisor other than zero.
\<close>

definition float_div :: "pyfloat \<Rightarrow> pyfloat \<Rightarrow> pyfloat" where
  "float_div x y =
     (case (x, y) of
        (Finite a, Finite b) \<Rightarrow> binary64 (a / b)
      | (NaN, _) \<Rightarrow> NaN
      | (_, NaN) \<Rightarrow> NaN
      | (Finite a, _) \<Rightarrow> Finite 0
      | (_, Finite b) \<Rightarrow> signed_inf (float_sgn x * float_sgn y)
      | _ \<Rightarrow> NaN)"

definition float_truediv :: "pyfloat \<Rightarrow> pyfloat \<Rightarrow> py_exception + pyfloat" where
  "float_truediv x y = (if y = Finite 0 then Inl ZeroDivisionError else Inr (float_div x y))"

text \<open>\<open>x < 0\<close>: false for \<open>nan\<close>.\<close>

definition float_lt0 :: "pyfloat \<Rightarrow> bool" where
  "float_lt0 x = (case x of Finite a \<Rightarrow> a < 0 | NInf \<Rightarrow> True | _ \<Rightarrow> False)"

text \<open>
  \<open>round(x, ndigits)\<close> on a float: the float nearest to the decimal of \<open>ndigits\<close>
  digits nearest to the value, a tie between two decimals going to the even last digit;
  \<open>inf\<close> and \<open>nan\<close> are returned as they are.
\<close>

definition py_round :: "pyfloat \<Rightarrow> nat \<Rightarrow> pyfloat" where
  "py_round x ndigits =
     (case x of
        Finite a \<Rightarrow> binary64 (of_int (round_half_even (a * 10 ^ ndigits)) / 10 ^ ndigits)
      | _ \<Rightarrow> x)"

text \<open>
  \<open>float(value)\<close> inside \<open>try ... except Exception\<close>: \<open>None\<close> is the caught exception
  (TypeError for \<open>None\<close>, a list or a dict; ValueError for a string that does not parse;
  OverflowError for an int that rounds beyond the largest binary64 value). An int is
  rounded to the nearest float.
\<close>

definition py_float :: "(string \<Rightarrow> pyfloat option) \<Rightarrow> json \<Rightarrow> pyfloat option" where
  "py_float float_of_str v =
     (case v of
        JNull \<Rightarrow> None
      | JBool b \<Rightarrow> Some (Finite (if b then 1 else 0))
      | JInt n \<Rightarrow> (case binary64 (of_int n) of Finite r \<Rightarrow> Some (Finite r) | _ \<Rightarrow> None)
      | JFloat x \<Rightarrow> Some x
      | JStr s \<Rightarrow> float_of_str s
      | JArr _ \<Rightarrow> None
      | JObj _ \<Rightarrow> None)"

subsection \<open>The unit tables\<close>

definition ALLOWED_UNITS_items :: "(string \<times> string) list" where
  "ALLOWED_UNITS_items =
    [(''miles'', ''length''),
     (''mile'', ''length''),
     (''mi'', ''length''),
     (''kilometer'', ''length''),
     (''kilometers'', ''length''),
     (''km'', ''length''),
     (''kilometre'', ''length''),
     (''kilometres'', ''length''),
     (''pounds'', ''weight''),
     (''pound'', ''weight''),
     (''lb'', ''weight''),
     (''lbs'', ''weight''),
     (''kilogram'', ''weight''),
     (''kilograms'', ''weight''),
     (''kg'', ''weight''),
     (''celsius'', ''temperature''),
     (''c'', ''temperature''),
     (''fahrenheit'', ''temperature''),
     (''f'', ''temperature'')]"

definition ALLOWED_UNITS :: "string \<rightharpoonup> string" where
  "ALLOWED_UNITS = map_of ALLOWED_UNITS_items"

definition NORMALIZE_items :: "(string \<times> string) list" where
  "NORMALIZE_items =
    [(''miles'', ''mi''), (''mile'', ''mi''), (''mi'', ''mi''),
     (''kilometer'', ''km''), (''kilometers'', ''km''), (''km'', ''km''),
     (''kilometre'', ''km''), (''kilometres'', ''km''),
     (''pounds'', ''lb''), (''pound'', ''lb''), (''lbs'', ''lb''), (''lb'', ''lb''),
     (''kilogram'', ''kg''), (''kilograms'', ''kg''), (''kg'', ''kg''),
     (''celsius'', ''c''), (''c'', ''c''), (''fahrenheit'', ''f''), (''f'', ''f'')]"

definition NORMALIZE :: "string \<rightharpoonup> string" where
  "NORMALIZE = map_of NORMALIZE_items"

text \<open>
  Both functions are only called on a \<open>str\<close> (the handler has checked
  \<open>isinstance(..., str)\<close> before), so the \<open>unit is None\<close> branch is never taken.
\<close>

definition get_unit_type :: "string \<Rightarrow> string option" where
  "get_unit_type unit = ALLOWED_UNITS (lower unit)"

definition normalize :: "string \<Rightarrow> string option" where
  "normalize unit = NORMALIZE (lower unit)"

text \<open>\<open>sorted(list(ALLOWED_UNITS.keys()))\<close>\<close>

definition allowed_units_sorted :: "string list" where
  "allowed_units_sorted = sort (map fst ALLOWED_UNITS_items)"

subsection \<open>Conversion helpers\<close>

text \<open>
  A literal of the source is the float nearest to the decimal written: \<open>1.609344\<close> is
  \<open>binary64 1.609344\<close>; \<open>9.0\<close>, \<open>5.0\<close> and \<open>32.0\<close> are exact.
\<close>

definition miles_to_km :: "pyfloat \<Rightarrow> pyfloat" where
  "miles_to_km mi = float_mul mi (binary64 1.609344)"

definition km_to_miles :: "pyfloat \<Rightarrow> py_exception + pyfloat" where
  "km_to_miles km = float_truediv km (binary64 1.609344)"

definition lb_to_kg :: "pyfloat \<Rightarrow> pyfloat" where
  "lb_to_kg lb = float_mul lb (binary64 0.45359237)"

definition kg_to_lb :: "pyfloat \<Rightarrow> py_exception + pyfloat" where
  "kg_to_lb kg = float_truediv kg (binary64 0.45359237)"

definition c_to_f :: "pyfloat \<Rightarrow> py_exception + pyfloat" where
  "c_to_f c =
     (case float_truediv (float_mul c (Finite 9)) (Finite 5) of
        Inl e \<Rightarrow> Inl e
      | Inr q \<Rightarrow> Inr (float_add q (Finite 32)))"

definition f_to_c :: "pyfloat \<Rightarrow> py_exception + pyfloat" where
  "f_to_c f = float_truediv (float_mul (float_sub f (Finite 32)) (Finite 5)) (Finite 9)"

subsection \<open>Responses\<close>

definition error_response :: "nat \<Rightarrow> (string \<times> json) list \<Rightarrow> response" where
  "error_response status payload = Response status (JObj payload)"

definition jsonify :: "(string \<times> json) list \<Rightarrow> response" where
  "jsonify resp = Response 200 (JObj resp)"

definition str_of_exception :: "py_exception \<Rightarrow> string" where
  "str_of_exception e = (case e of ZeroDivisionError \<Rightarrow> ''float division by zero'')"

subsection \<open>The handler\<close>

text \<open>
  Step 8 (the \<open>try\<close> block): \<open>Inl r\<close> is a \<open>return r\<close> from inside the block, \<open>Inr x\<close>
  leaves the block with \<open>converted = x\<close>.
\<close>

definition returned :: "py_exception + pyfloat \<Rightarrow> py_exception + (response + pyfloat)" where
  "returned r = (case r of Inl e \<Rightarrow> Inl e | Inr x \<Rightarrow> Inr (Inr x))"

definition do_conversion :: "string \<Rightarrow> string \<Rightarrow> string \<Rightarrow> pyfloat \<Rightarrow> response + pyfloat" where
  "do_conversion from_type from_unit to_unit value_num =
     (case
        (if from_type = ''length'' then
           if from_unit = to_unit then Inr (Inr value_num)
           else if from_unit = ''mi'' \<and> to_unit = ''km'' then Inr (Inr (miles_to_km value_num))
           else if from_unit = ''km'' \<and> to_unit = ''mi'' then returned (km_to_miles value_num)
           else Inr (Inl (error_response 400
                  [(''error'', JStr ''Unsupported length conversion pair'')]))
         else if from_type = ''weight'' then
           if from_unit = to_unit then Inr (Inr value_num)
           else if from_unit = ''lb'' \<and> to_unit = ''kg'' then Inr (Inr (lb_to_kg value_num))
           else if from_unit = ''kg'' \<and> to_unit = ''lb'' then returned (kg_to_lb value_num)
           else Inr (Inl (error_response 400
                  [(''error'', JStr ''Unsupported weight conversion pair'')]))
         else if from_type = ''temperature'' then
           if from_unit = to_unit then Inr (Inr value_num)
           else if from_unit = ''c'' \<and> to_unit = ''f'' then returned (c_to_f value_num)
           else if from_unit = ''f'' \<and> to_unit = ''c'' then returned (f_to_c value_num)
           else Inr (Inl (error_response 400
                  [(''error'', JStr ''Unsupported temperature conversion pair'')]))
         else Inr (Inl (error_response 500 [(''error'', JStr ''Unhandled unit type'')])))
      of
        Inl e \<Rightarrow> Inl (error_response 500
                  [(''error'', JStr ''Exception during conversion''),
                   (''exception'', JStr (str_of_exception e))])
      | Inr r \<Rightarrow> r)"

text \<open>Steps 4 to 8 and the result, on the stripped unit strings.\<close>

definition convert_units :: "pyfloat \<Rightarrow> string \<Rightarrow> string \<Rightarrow> response" where
  "convert_units value_num from_unit_raw to_unit_raw =
     (case get_unit_type from_unit_raw of
        None \<Rightarrow> error_response 422
          [(''error'', JStr ''Unsupported from_unit''), (''provided'', JStr from_unit_raw),
           (''allowed_units'', JArr (map JStr allowed_units_sorted))]
      | Some from_type \<Rightarrow>
     (case get_unit_type to_unit_raw of
        None \<Rightarrow> error_response 422
          [(''error'', JStr ''Unsupported to_unit''), (''provided'', JStr to_unit_raw),
           (''allowed_units'', JArr (map JStr allowed_units_sorted))]
      | Some to_type \<Rightarrow>
     if from_type \<noteq> to_type then error_response 400
          [(''error'', JStr ''Unsupported conversion types''),
           (''message'', JStr (''Cannot convert from '' @ from_type @ '' to '' @ to_type)),
           (''from_unit'', JStr from_unit_raw), (''to_unit'', JStr to_unit_raw)]
     else
     (case (normalize from_unit_raw, normalize to_unit_raw) of
        (Some from_unit, Some to_unit) \<Rightarrow>
          if (from_type = ''length'' \<or> from_type = ''weight'') \<and> float_lt0 value_num
          then error_response 400
            [(''error'', JStr ''Negative value not allowed for selected unit type''),
             (''unit_type'', JStr from_type), (''provided_value'', JFloat value_num)]
          else
          (case do_conversion from_type from_unit to_unit value_num of
             Inl r \<Rightarrow> r
           | Inr converted \<Rightarrow>
               jsonify
                 [(''original_value'', JFloat value_num),
                  (''original_unit'', JStr from_unit_raw),
                  (''converted_value'', JFloat (py_round converted 6)),
                  (''converted_unit'', JStr to_unit_raw),
                  (''conversion_type'', JStr from_type)])
      | _ \<Rightarrow> error_response 422
          [(''error'', JStr ''Unit normalization failed''),
           (''from_unit'', JStr from_unit_raw), (''to_unit'', JStr to_unit_raw)])))"

text \<open>Step 3: the types of the three fields.\<close>

definition nonempty_str :: "json \<Rightarrow> bool" where
  "nonempty_str j = (case j of JStr s \<Rightarrow> strip s \<noteq> [] | _ \<Rightarrow> False)"

definition str_strip :: "json \<Rightarrow> string" where
  "str_strip j = (case j of JStr s \<Rightarrow> strip s | _ \<Rightarrow> [])"

definition convert_fields ::
  "(string \<Rightarrow> pyfloat option) \<Rightarrow> json \<Rightarrow> json \<Rightarrow> json \<Rightarrow> response" where
  "convert_fields float_of_str val from_unit_raw to_unit_raw =
     (case py_float float_of_str val of
        None \<Rightarrow> error_response 422
          [(''error'', JStr ''value must be a number''), (''provided'', val)]
      | Some value_num \<Rightarrow>
          if \<not> nonempty_str from_unit_raw then error_response 422
            [(''error'', JStr ''from_unit must be a non-empty string''),
             (''provided'', from_unit_raw)]
          else if \<not> nonempty_str to_unit_raw then error_response 422
            [(''error'', JStr ''to_unit must be a non-empty string''),
             (''provided'', to_unit_raw)]
          else convert_units value_num (str_strip from_unit_raw) (str_strip to_unit_raw))"

text \<open>
  Steps 1 and 2. \<open>f not in body\<close> is a key test on a dict, an element test on a list,
  a substring test on a string and a TypeError on anything else; \<open>body.get\<close> exists
  on a dict only.
\<close>

fun is_prefix :: "string \<Rightarrow> string \<Rightarrow> bool" where
  "is_prefix [] s = True"
| "is_prefix (x # xs) [] = False"
| "is_prefix (x # xs) (y # ys) = (x = y \<and> is_prefix xs ys)"

fun str_contains :: "string \<Rightarrow> string \<Rightarrow> bool" where
  "str_contains [] f = is_prefix f []"
| "str_contains (c # s) f = (is_prefix f (c # s) \<or> str_contains s f)"

definition py_in :: "string \<Rightarrow> json \<Rightarrow> bool option" where
  "py_in f body =
     (case body of
        JObj kvs \<Rightarrow> Some (f \<in> set (map fst kvs))
      | JArr xs \<Rightarrow> Some (JStr f \<in> set xs)
      | JStr s \<Rightarrow> Some (str_contains s f)
      | _ \<Rightarrow> None)"

definition dict_get :: "(string \<times> json) list \<Rightarrow> string \<Rightarrow> json" where
  "dict_get kvs k = (case map_of kvs k of None \<Rightarrow> JNull | Some v \<Rightarrow> v)"

definition convert :: "(string \<Rightarrow> pyfloat option) \<Rightarrow> request \<Rightarrow> response" where
  "convert float_of_str req =
     (if \<not> is_json req then error_response 422
        [(''error'', JStr ''Request must be JSON''),
         (''hint'', JStr ''Set Content-Type: application/json'')]
      else
        let body = get_json req in
        (case py_in ''value'' body of
           None \<Rightarrow> InternalServerError
         | Some _ \<Rightarrow>
        let missing = filter (\<lambda>f. py_in f body = Some False) [''value'', ''from_unit'', ''to_unit'']
        in if missing \<noteq> [] then error_response 422
             [(''error'', JStr ''Missing fields''), (''missing'', JArr (map JStr missing))]
           else
             (case body of
                JObj kvs \<Rightarrow>
                  convert_fields float_of_str
                    (dict_get kvs ''value'') (dict_get kvs ''from_unit'') (dict_get kvs ''to_unit'')
              | _ \<Rightarrow> InternalServerError)))"

subsection \<open>Notions used to state the properties\<close>

text \<open>
  The canonical codes with their categories (the data model of the specification:
  each code belongs to exactly one category).
\<close>

definition unit_codes :: "(string \<times> string) list" where
  "unit_codes =
     [(''mi'', ''length''), (''km'', ''length''), (''lb'', ''weight''), (''kg'', ''weight''),
      (''c'', ''temperature''), (''f'', ''temperature'')]"

definition category_of_code :: "string \<Rightarrow> string option" where
  "category_of_code c = map_of unit_codes c"

text \<open>
  The formulas as the specification words them, for the six pairs of distinct codes,
  on exact numbers; \<open>spec_convert\<close> adds the identity on equal codes.
\<close>

definition spec_formula :: "string \<Rightarrow> string \<Rightarrow> rat \<Rightarrow> rat option" where
  "spec_formula from_code to_code v =
     (if from_code = ''mi'' \<and> to_code = ''km'' then Some (v * 1.609344)
      else if from_code = ''km'' \<and> to_code = ''mi'' then Some (v / 1.609344)
      else if from_code = ''lb'' \<and> to_code = ''kg'' then Some (v * 0.45359237)
      else if from_code = ''kg'' \<and> to_code = ''lb'' then Some (v / 0.45359237)
      else if from_code = ''c'' \<and> to_code = ''f'' then Some (v * 9 / 5 + 32)
      else if from_code = ''f'' \<and> to_code = ''c'' then Some ((v - 32) * 5 / 9)
      else None)"

definition spec_convert :: "string \<Rightarrow> string \<Rightarrow> rat \<Rightarrow> rat option" where
  "spec_convert from_code to_code v =
     (if from_code = to_code then Some v else spec_formula from_code to_code v)"

text \<open>
  The same formulas with every operation in binary64, in the order the specification
  writes them (\<open>value \<times> 9 / 5 + 32\<close> is a product, then a quotient, then a sum);
  \<open>spec_convert_binary64\<close> adds the identity on equal codes.
\<close>

definition spec_formula_binary64 :: "string \<Rightarrow> string \<Rightarrow> pyfloat \<Rightarrow> pyfloat option" where
  "spec_formula_binary64 from_code to_code v =
     (if from_code = ''mi'' \<and> to_code = ''km'' then Some (float_mul v (binary64 1.609344))
      else if from_code = ''km'' \<and> to_code = ''mi'' then Some (float_div v (binary64 1.609344))
      else if from_code = ''lb'' \<and> to_code = ''kg'' then Some (float_mul v (binary64 0.45359237))
      else if from_code = ''kg'' \<and> to_code = ''lb'' then Some (float_div v (binary64 0.45359237))
      else if from_code = ''c'' \<and> to_code = ''f''
        then Some (float_add (float_div (float_mul v (Finite 9)) (Finite 5)) (Finite 32))
      else if from_code = ''f'' \<and> to_code = ''c''
        then Some (float_div (float_mul (float_sub v (Finite 32)) (Finite 5)) (Finite 9))
      else None)"

definition spec_convert_binary64 :: "string \<Rightarrow> string \<Rightarrow> pyfloat \<Rightarrow> pyfloat option" where
  "spec_convert_binary64 from_code to_code v =
     (if from_code = to_code then Some v else spec_formula_binary64 from_code to_code v)"

text \<open>The decimal of six digits nearest to a number, a tie going to the even last digit.\<close>

definition round6 :: "rat \<Rightarrow> rat" where
  "round6 q = of_int (round_half_even (q * 10 ^ 6)) / 10 ^ 6"

text \<open>A field of the JSON object a request carries.\<close>

definition field :: "request \<Rightarrow> string \<Rightarrow> json option" where
  "field req k =
     (if is_json req then (case get_json req of JObj kvs \<Rightarrow> map_of kvs k | _ \<Rightarrow> None)
      else None)"

text \<open>The status and the fields of a response.\<close>

definition status_of :: "response \<Rightarrow> nat" where
  "status_of r = (case r of Response s _ \<Rightarrow> s | InternalServerError \<Rightarrow> 500)"

definition response_field :: "response \<Rightarrow> string \<Rightarrow> json option" where
  "response_field r k = (case r of Response _ (JObj kvs) \<Rightarrow> map_of kvs k | _ \<Rightarrow> None)"

text \<open>
  The \<open>error\<close> fields a response can carry (\<open>None\<close>: no such field); the messages
  of the handler that are absent from this set are the ones no request reaches.
\<close>

definition live_errors :: "json option set" where
  "live_errors =
     {None,
      Some (JStr ''Request must be JSON''),
      Some (JStr ''Missing fields''),
      Some (JStr ''value must be a number''),
      Some (JStr ''from_unit must be a non-empty string''),
      Some (JStr ''to_unit must be a non-empty string''),
      Some (JStr ''Unsupported from_unit''),
      Some (JStr ''Unsupported to_unit''),
      Some (JStr ''Unsupported conversion types''),
      Some (JStr ''Negative value not allowed for selected unit type'')}"

text \<open>
  What a response says apart from the echo of the unit strings: its status, its error
  message, and the value sent, the value converted and the category of a result.
\<close>

definition outcome ::
  "response \<Rightarrow> nat \<times> json option \<times> json option \<times> json option \<times> json option" where
  "outcome r =
     (status_of r, response_field r ''error'', response_field r ''original_value'',
      response_field r ''converted_value'', response_field r ''conversion_type'')"

text \<open>
  The request with exactly the three fields, and the round trip: convert \<open>v\<close> from
  \<open>a\<close> to \<open>b\<close>, then send the \<open>converted_value\<close> of the answer back from \<open>b\<close> to \<open>a\<close>.
\<close>

definition conversion_request :: "json \<Rightarrow> string \<Rightarrow> string \<Rightarrow> request" where
  "conversion_request v from_unit to_unit =
     \<lparr>is_json = True,
      get_json = JObj [(''value'', v), (''from_unit'', JStr from_unit), (''to_unit'', JStr to_unit)]\<rparr>"

definition round_trip ::
  "(string \<Rightarrow> pyfloat option) \<Rightarrow> string \<Rightarrow> string \<Rightarrow> pyfloat \<Rightarrow> json option" where
  "round_trip float_of_str a b v =
     (case response_field (convert float_of_str (conversion_request (JFloat v) a b))
             ''converted_value'' of
        None \<Rightarrow> None
      | Some w \<Rightarrow>
          response_field (convert float_of_str (conversion_request w b a)) ''converted_value'')"

section \<open>Properties\<close>

subsection \<open>The two tables agree\<close>

lemma ALLOWED_UNITS_cases:
  "ALLOWED_UNITS k = Some t \<Longrightarrow> (k, t) \<in> set ALLOWED_UNITS_items"
  unfolding ALLOWED_UNITS_def by (rule map_of_SomeD)

lemma NORMALIZE_cases:
  "NORMALIZE k = Some c \<Longrightarrow> (k, c) \<in> set NORMALIZE_items"
  unfolding NORMALIZE_def by (rule map_of_SomeD)

lemma NORMALIZE_of_allowed:
  "\<forall>(k, t) \<in> set ALLOWED_UNITS_items.
     \<exists>c. NORMALIZE k = Some c \<and> category_of_code c = Some t"
  by (simp add: ALLOWED_UNITS_items_def NORMALIZE_def NORMALIZE_items_def
      category_of_code_def unit_codes_def)

lemma ALLOWED_UNITS_of_normalized:
  "\<forall>(k, c) \<in> set NORMALIZE_items.
     ALLOWED_UNITS k = category_of_code c \<and> category_of_code c \<noteq> None"
  by (simp add: ALLOWED_UNITS_items_def ALLOWED_UNITS_def NORMALIZE_items_def
      category_of_code_def unit_codes_def)

lemma get_unit_type_normalize:
  assumes "get_unit_type u = Some t"
  shows "\<exists>c. normalize u = Some c \<and> category_of_code c = Some t"
  using ALLOWED_UNITS_cases [of "lower u" t] NORMALIZE_of_allowed assms
  unfolding get_unit_type_def normalize_def by blast

lemma normalize_get_unit_type:
  assumes "normalize u = Some c"
  shows "get_unit_type u = category_of_code c" and "category_of_code c \<noteq> None"
  using NORMALIZE_cases [of "lower u" c] ALLOWED_UNITS_of_normalized assms
  unfolding get_unit_type_def normalize_def by blast+

subsection \<open>From the request to its fields\<close>

lemma py_in_field:
  assumes "field req k = Some v"
  shows "py_in k (get_json req) = Some True"
  using assms unfolding field_def py_in_def
  by (auto split: if_splits json.splits dest!: map_of_SomeD intro: rev_image_eqI)

lemma convert_eq_convert_fields:
  assumes "field req ''value'' = Some v"
    and "field req ''from_unit'' = Some f"
    and "field req ''to_unit'' = Some t"
  shows "convert P req = convert_fields P v f t"
proof -
  from assms(1) have j: "is_json req" by (simp add: field_def split: if_splits)
  from assms(1) obtain kvs where b: "get_json req = JObj kvs"
    by (auto simp: field_def split: if_splits json.splits)
  have m: "map_of kvs ''value'' = Some v" "map_of kvs ''from_unit'' = Some f"
    "map_of kvs ''to_unit'' = Some t"
    using assms j b by (simp_all add: field_def)
  have i: "py_in ''value'' (get_json req) = Some True"
    "py_in ''from_unit'' (get_json req) = Some True"
    "py_in ''to_unit'' (get_json req) = Some True"
    using assms by (simp_all add: py_in_field)
  show ?thesis
    unfolding convert_def using j by (simp add: b i [unfolded b] m dict_get_def)
qed

subsection \<open>Rounding\<close>

lemma round_half_even_bound: "\<bar>of_int (round_half_even y) - y\<bar> \<le> 1 / 2"
proof -
  define f where "f = \<lfloor>y\<rfloor>"
  have a: "of_int f \<le> y" "y < of_int f + 1" unfolding f_def by linarith+
  consider "y - of_int f < 1 / 2" | "1 / 2 < y - of_int f" | "y - of_int f = 1 / 2"
    by linarith
  then show ?thesis
  proof cases
    case 1
    then have "round_half_even y = f" by (simp add: round_half_even_def f_def)
    then show ?thesis using a 1 by simp
  next
    case 2
    then have "round_half_even y = f + 1" by (simp add: round_half_even_def f_def)
    then show ?thesis using a 2 by simp
  next
    case 3
    then have "round_half_even y = f \<or> round_half_even y = f + 1"
      by (simp add: round_half_even_def f_def Let_def)
    then show ?thesis using a 3 by auto
  qed
qed

lemma round_half_even_nonneg:
  assumes "0 \<le> y"
  shows "0 \<le> round_half_even y"
proof -
  have "0 \<le> \<lfloor>y\<rfloor>" using assms by simp
  then show ?thesis unfolding round_half_even_def Let_def by simp
qed

subsection \<open>Floats: the error of one operation\<close>

lemma float_literals:
  "binary64 1.609344 = Finite (226495032459717 / 140737488355328)"
  "binary64 0.45359237 = Finite (8171193714040401 / 18014398509481984)"
  by code_simp+

lemma float_exponent_zero: "float_exponent 0 = - 2"
  by code_simp

lemma float_exponent_le:
  assumes "x \<noteq> 0"
  shows "2 powi (float_exponent x) \<le> \<bar>x\<bar>"
proof -
  obtain p q where pq: "quotient_of \<bar>x\<bar> = (p, q)" by force
  have q: "0 < q" using quotient_of_denom_pos [OF pq] .
  have x: "\<bar>x\<bar> = of_int p / of_int q" using quotient_of_div [OF pq] .
  have "0 < \<bar>x\<bar>" using assms by simp
  then have p: "0 < p" unfolding x using q by (simp add: zero_less_divide_iff)
  let ?e = "bitlen p - bitlen q"
  show ?thesis
  proof (cases "\<bar>x\<bar> < 2 powi ?e")
    case False
    then show ?thesis by (simp add: float_exponent_def pq)
  next
    case True
    then have e: "float_exponent x = ?e - 1" by (simp add: float_exponent_def pq)
    have bp: "1 \<le> bitlen p" using p by (simp add: bitlen_alt_def)
    have "2 ^ nat (bitlen p - 1) \<le> p" using bitlen_bounds [OF p] ..
    then have "(of_int (2 ^ nat (bitlen p - 1)) :: rat) \<le> of_int p" by (simp only: of_int_le_iff)
    then have a: "(2::rat) powi (bitlen p - 1) \<le> of_int p"
      using bp by (simp add: power_int_def)
    have "q < 2 ^ nat (bitlen q)" using bitlen_bounds [OF q] ..
    then have "(of_int q :: rat) \<le> of_int (2 ^ nat (bitlen q))" by (simp only: of_int_le_iff less_imp_le)
    then have b: "of_int q \<le> (2::rat) powi (bitlen q)"
      using bitlen_nonneg [of q] by (simp add: power_int_def)
    have "(2::rat) powi (?e - 1) = 2 powi (bitlen p - 1) / 2 powi (bitlen q)"
      using power_int_diff [of "2::rat" "bitlen p - 1" "bitlen q"] by (simp add: algebra_simps)
    also have "\<dots> \<le> of_int p / of_int q"
      by (rule frac_le) (use a b p q in simp_all)
    finally show ?thesis unfolding e x .
  qed
qed

lemma binary64_near:
  assumes "\<bar>x\<bar> \<le> 16777216"
  shows "\<exists>r. binary64 x = Finite r \<and> \<bar>r - x\<bar> \<le> 1 / 536870912 \<and> (0 \<le> x \<longrightarrow> 0 \<le> r)"
proof -
  define u where "u = (2::rat) powi (max (float_exponent x) (- 1022) - 52)"
  define r where "r = of_int (round_half_even (x / u)) * u"
  have e: "float_exponent x \<le> 24"
  proof (cases "x = 0")
    case True
    then show ?thesis by (simp add: float_exponent_zero)
  next
    case False
    have "(2::rat) powi (float_exponent x) \<le> 2 powi 24"
      using float_exponent_le [OF False] assms by simp
    then show ?thesis by (rule power_int_le_imp_le_exp [rotated]) simp_all
  qed
  have u0: "0 < u" unfolding u_def by simp
  have "u \<le> 2 powi (- 28)"
    unfolding u_def by (rule power_int_increasing) (use e in simp_all)
  then have u1: "u \<le> 1 / 268435456" by simp
  have "\<bar>of_int (round_half_even (x / u)) - x / u\<bar> \<le> 1 / 2"
    by (rule round_half_even_bound)
  then have "\<bar>of_int (round_half_even (x / u)) - x / u\<bar> * u \<le> 1 / 2 * u"
    using u0 by (intro mult_right_mono) simp_all
  moreover have "r - x = (of_int (round_half_even (x / u)) - x / u) * u"
    unfolding r_def using u0 by (simp add: field_simps)
  ultimately have "\<bar>r - x\<bar> \<le> u / 2"
    using u0 by (simp add: abs_mult)
  then have err: "\<bar>r - x\<bar> \<le> 1 / 536870912" using u1 by linarith
  have nonneg: "0 \<le> x \<longrightarrow> 0 \<le> r"
    unfolding r_def using u0 round_half_even_nonneg [of "x / u"] by simp
  have "\<bar>r\<bar> < 16777217" using err assms by linarith
  then have "\<not> of_int (2 ^ 1024) \<le> \<bar>r\<bar>" by simp
  then have "binary64 x = Finite r"
    unfolding binary64_def Let_def u_def [symmetric] r_def [symmetric] by simp
  with err nonneg show ?thesis by blast
qed

subsection \<open>Rounding to six decimals\<close>

lemma py_round_Finite: "py_round (Finite q) 6 = binary64 (round6 q)"
  by (simp add: py_round_def round6_def)

lemma round6_bound: "\<bar>round6 q - q\<bar> \<le> 1 / 2000000"
proof -
  define e where "e = of_int (round_half_even (q * 1000000)) - q * 1000000"
  have b: "\<bar>e\<bar> \<le> 1 / 2" unfolding e_def by (rule round_half_even_bound)
  have "round6 q - q = e / 1000000"
    unfolding e_def round6_def by (simp add: diff_divide_distrib)
  then have "\<bar>round6 q - q\<bar> = \<bar>e\<bar> / 1000000" by (simp only: abs_divide abs_numeral)
  with b show ?thesis by linarith
qed

lemma round6_nonneg: "0 \<le> q \<Longrightarrow> 0 \<le> round6 q"
  unfolding round6_def using round_half_even_nonneg [of "q * 10 ^ 6"] by simp

lemma py_round_near:
  assumes "\<bar>q\<bar> \<le> 16000000"
  shows "\<exists>w. py_round (Finite q) 6 = Finite w \<and> \<bar>w - q\<bar> \<le> 502 / 1000000000 \<and>
    (0 \<le> q \<longrightarrow> 0 \<le> w)"
proof -
  have b: "\<bar>round6 q - q\<bar> \<le> 1 / 2000000" by (rule round6_bound)
  then have "\<bar>round6 q\<bar> \<le> 16777216" using assms by linarith
  from binary64_near [OF this] obtain w where
    w: "binary64 (round6 q) = Finite w" "\<bar>w - round6 q\<bar> \<le> 1 / 536870912"
      "0 \<le> round6 q \<longrightarrow> 0 \<le> w"
    by blast
  have "\<bar>w - q\<bar> \<le> 502 / 1000000000" using w(2) b by linarith
  moreover have "0 \<le> q \<longrightarrow> 0 \<le> w" using w(3) round6_nonneg [of q] by blast
  ultimately show ?thesis using w(1) by (simp add: py_round_Finite)
qed

subsection \<open>Floats: the error of each formula\<close>

lemma float_mul_near:
  assumes "\<bar>a * b\<bar> \<le> 16777216"
  shows "\<exists>r. float_mul (Finite a) (Finite b) = Finite r \<and> \<bar>r - a * b\<bar> \<le> 1 / 536870912 \<and>
    (0 \<le> a * b \<longrightarrow> 0 \<le> r)"
  using binary64_near [OF assms] by (simp add: float_mul_def)

lemma float_div_near:
  assumes "\<bar>a / b\<bar> \<le> 16777216"
  shows "\<exists>r. float_div (Finite a) (Finite b) = Finite r \<and> \<bar>r - a / b\<bar> \<le> 1 / 536870912 \<and>
    (0 \<le> a / b \<longrightarrow> 0 \<le> r)"
  using binary64_near [OF assms] by (simp add: float_div_def)

lemma float_add_near:
  assumes "\<bar>a + b\<bar> \<le> 16777216"
  shows "\<exists>r. float_add (Finite a) (Finite b) = Finite r \<and> \<bar>r - (a + b)\<bar> \<le> 1 / 536870912 \<and>
    (0 \<le> a + b \<longrightarrow> 0 \<le> r)"
  using binary64_near [OF assms] by (simp add: float_add_def)

lemma formula_mi_km_near:
  assumes "\<bar>q\<bar> \<le> 2300000"
  shows "\<exists>r. float_mul (Finite q) (binary64 1.609344) = Finite r \<and>
    \<bar>r - q * 1.609344\<bar> \<le> 1 / 100000000 \<and> (0 \<le> q \<longrightarrow> 0 \<le> r)"
proof -
  let ?c = "226495032459717 / 140737488355328 :: rat"
  have "\<bar>q * ?c\<bar> \<le> 16777216" using assms unfolding abs_le_iff by simp
  from float_mul_near [OF this] obtain r where
    r: "float_mul (Finite q) (Finite ?c) = Finite r" "\<bar>r - q * ?c\<bar> \<le> 1 / 536870912"
      "0 \<le> q * ?c \<longrightarrow> 0 \<le> r"
    by blast
  have "\<bar>r - q * 1.609344\<bar> \<le> 1 / 100000000"
    using r(2) assms unfolding abs_le_iff by simp
  moreover have "0 \<le> q \<longrightarrow> 0 \<le> r" using r(3) by simp
  ultimately show ?thesis using r(1) unfolding float_literals by blast
qed

lemma formula_km_mi_near:
  assumes "\<bar>q\<bar> \<le> 2300000"
  shows "\<exists>r. float_div (Finite q) (binary64 1.609344) = Finite r \<and>
    \<bar>r - q / 1.609344\<bar> \<le> 1 / 100000000 \<and> (0 \<le> q \<longrightarrow> 0 \<le> r)"
proof -
  let ?c = "226495032459717 / 140737488355328 :: rat"
  have "\<bar>q / ?c\<bar> \<le> 16777216" using assms unfolding abs_le_iff by simp
  from float_div_near [OF this] obtain r where
    r: "float_div (Finite q) (Finite ?c) = Finite r" "\<bar>r - q / ?c\<bar> \<le> 1 / 536870912"
      "0 \<le> q / ?c \<longrightarrow> 0 \<le> r"
    by blast
  have "\<bar>r - q / 1.609344\<bar> \<le> 1 / 100000000"
    using r(2) assms unfolding abs_le_iff by simp
  moreover have "0 \<le> q \<longrightarrow> 0 \<le> r" using r(3) by simp
  ultimately show ?thesis using r(1) unfolding float_literals by blast
qed

lemma formula_lb_kg_near:
  assumes "\<bar>q\<bar> \<le> 2300000"
  shows "\<exists>r. float_mul (Finite q) (binary64 0.45359237) = Finite r \<and>
    \<bar>r - q * 0.45359237\<bar> \<le> 1 / 100000000 \<and> (0 \<le> q \<longrightarrow> 0 \<le> r)"
proof -
  let ?c = "8171193714040401 / 18014398509481984 :: rat"
  have "\<bar>q * ?c\<bar> \<le> 16777216" using assms unfolding abs_le_iff by simp
  from float_mul_near [OF this] obtain r where
    r: "float_mul (Finite q) (Finite ?c) = Finite r" "\<bar>r - q * ?c\<bar> \<le> 1 / 536870912"
      "0 \<le> q * ?c \<longrightarrow> 0 \<le> r"
    by blast
  have "\<bar>r - q * 0.45359237\<bar> \<le> 1 / 100000000"
    using r(2) assms unfolding abs_le_iff by simp
  moreover have "0 \<le> q \<longrightarrow> 0 \<le> r" using r(3) by simp
  ultimately show ?thesis using r(1) unfolding float_literals by blast
qed

lemma formula_kg_lb_near:
  assumes "\<bar>q\<bar> \<le> 2300000"
  shows "\<exists>r. float_div (Finite q) (binary64 0.45359237) = Finite r \<and>
    \<bar>r - q / 0.45359237\<bar> \<le> 1 / 100000000 \<and> (0 \<le> q \<longrightarrow> 0 \<le> r)"
proof -
  let ?c = "8171193714040401 / 18014398509481984 :: rat"
  have "\<bar>q / ?c\<bar> \<le> 16777216" using assms unfolding abs_le_iff by simp
  from float_div_near [OF this] obtain r where
    r: "float_div (Finite q) (Finite ?c) = Finite r" "\<bar>r - q / ?c\<bar> \<le> 1 / 536870912"
      "0 \<le> q / ?c \<longrightarrow> 0 \<le> r"
    by blast
  have "\<bar>r - q / 0.45359237\<bar> \<le> 1 / 100000000"
    using r(2) assms unfolding abs_le_iff by simp
  moreover have "0 \<le> q \<longrightarrow> 0 \<le> r" using r(3) by simp
  ultimately show ?thesis using r(1) unfolding float_literals by blast
qed

lemma formula_c_f_near:
  assumes "\<bar>q\<bar> \<le> 1850000"
  shows "\<exists>r. float_add (float_div (float_mul (Finite q) (Finite 9)) (Finite 5)) (Finite 32) = Finite r \<and>
    \<bar>r - (q * 9 / 5 + 32)\<bar> \<le> 1 / 100000000"
proof -
  have "\<bar>q * 9\<bar> \<le> 16777216" using assms unfolding abs_le_iff by simp
  from float_mul_near [OF this] obtain r1 where
    r1: "float_mul (Finite q) (Finite 9) = Finite r1" "\<bar>r1 - q * 9\<bar> \<le> 1 / 536870912"
    by blast
  have "\<bar>r1 / 5\<bar> \<le> 16777216" using r1(2) assms unfolding abs_le_iff by simp
  from float_div_near [OF this] obtain r2 where
    r2: "float_div (Finite r1) (Finite 5) = Finite r2" "\<bar>r2 - r1 / 5\<bar> \<le> 1 / 536870912"
    by blast
  have "\<bar>r2 + 32\<bar> \<le> 16777216" using r1(2) r2(2) assms unfolding abs_le_iff by simp
  from float_add_near [OF this] obtain r3 where
    r3: "float_add (Finite r2) (Finite 32) = Finite r3" "\<bar>r3 - (r2 + 32)\<bar> \<le> 1 / 536870912"
    by blast
  have "\<bar>r3 - (q * 9 / 5 + 32)\<bar> \<le> 1 / 100000000"
    using r1(2) r2(2) r3(2) unfolding abs_le_iff by simp
  then show ?thesis using r1(1) r2(1) r3(1) by simp
qed

lemma formula_f_c_near:
  assumes "\<bar>q\<bar> \<le> 1850000"
  shows "\<exists>r. float_div (float_mul (float_sub (Finite q) (Finite 32)) (Finite 5)) (Finite 9) = Finite r \<and>
    \<bar>r - (q - 32) * 5 / 9\<bar> \<le> 1 / 100000000"
proof -
  have "\<bar>q + - 32\<bar> \<le> 16777216" using assms unfolding abs_le_iff by simp
  from float_add_near [OF this] obtain r1 where
    r1: "float_add (Finite q) (Finite (- 32)) = Finite r1" "\<bar>r1 - (q + - 32)\<bar> \<le> 1 / 536870912"
    by blast
  have "\<bar>r1 * 5\<bar> \<le> 16777216" using r1(2) assms unfolding abs_le_iff by simp
  from float_mul_near [OF this] obtain r2 where
    r2: "float_mul (Finite r1) (Finite 5) = Finite r2" "\<bar>r2 - r1 * 5\<bar> \<le> 1 / 536870912"
    by blast
  have "\<bar>r2 / 9\<bar> \<le> 16777216" using r1(2) r2(2) assms unfolding abs_le_iff by simp
  from float_div_near [OF this] obtain r3 where
    r3: "float_div (Finite r2) (Finite 9) = Finite r3" "\<bar>r3 - r2 / 9\<bar> \<le> 1 / 536870912"
    by blast
  have "\<bar>r3 - (q - 32) * 5 / 9\<bar> \<le> 1 / 100000000"
    using r1(2) r2(2) r3(2) unfolding abs_le_iff by (simp add: field_simps)
  then show ?thesis using r1(1) r2(1) r3(1) by (simp add: float_sub_def float_neg_def)
qed

subsection \<open>The conversion step\<close>

lemma helpers_formula:
  "miles_to_km x = float_mul x (binary64 1.609344)"
  "km_to_miles x = Inr (float_div x (binary64 1.609344))"
  "lb_to_kg x = float_mul x (binary64 0.45359237)"
  "kg_to_lb x = Inr (float_div x (binary64 0.45359237))"
  "c_to_f x = Inr (float_add (float_div (float_mul x (Finite 9)) (Finite 5)) (Finite 32))"
  "f_to_c x = Inr (float_div (float_mul (float_sub x (Finite 32)) (Finite 5)) (Finite 9))"
  unfolding miles_to_km_def km_to_miles_def lb_to_kg_def kg_to_lb_def c_to_f_def f_to_c_def
    float_truediv_def float_literals
  by simp_all

lemma category_of_code_mem:
  "category_of_code a = Some cat \<Longrightarrow> (a, cat) \<in> set unit_codes"
  unfolding category_of_code_def by (rule map_of_SomeD)

lemma spec_convert_table:
  "\<forall>(a, ca) \<in> set unit_codes. \<forall>(b, cb) \<in> set unit_codes.
     ca = cb \<longrightarrow> spec_convert a b q \<noteq> None"
  by (simp add: unit_codes_def spec_convert_def spec_formula_def del: not_None_eq)

lemma spec_convert_defined:
  assumes "category_of_code a = Some cat" and "category_of_code b = Some cat"
  shows "spec_convert a b q \<noteq> None"
  using spec_convert_table [of q] category_of_code_mem [OF assms(1)]
    category_of_code_mem [OF assms(2)] by blast

lemma do_conversion_table:
  "\<forall>(a, ca) \<in> set unit_codes. \<forall>(b, cb) \<in> set unit_codes.
     ca = cb \<longrightarrow>
       (\<exists>r. spec_convert_binary64 a b x = Some r \<and> do_conversion ca a b x = Inr r)"
  by (simp add: unit_codes_def spec_convert_binary64_def spec_formula_binary64_def
      do_conversion_def returned_def helpers_formula)

lemma do_conversion_spec:
  assumes "category_of_code a = Some cat" and "category_of_code b = Some cat"
  shows "\<exists>r. spec_convert_binary64 a b x = Some r \<and> do_conversion cat a b x = Inr r"
  using do_conversion_table [of x] category_of_code_mem [OF assms(1)]
    category_of_code_mem [OF assms(2)] by blast

lemma do_conversion_total:
  assumes "category_of_code a = Some cat" and "category_of_code b = Some cat"
  shows "\<exists>c. do_conversion cat a b x = Inr c"
  using do_conversion_spec [OF assms, of x] by blast

lemma distinct_codes_cases:
  assumes "category_of_code a = Some cat" and "category_of_code b = Some cat" and "a \<noteq> b"
  shows "(a = ''mi'' \<and> b = ''km'') \<or> (a = ''km'' \<and> b = ''mi'') \<or>
         (a = ''lb'' \<and> b = ''kg'') \<or> (a = ''kg'' \<and> b = ''lb'') \<or>
         (a = ''c'' \<and> b = ''f'') \<or> (a = ''f'' \<and> b = ''c'')"
proof -
  define D where "D = (\<lambda>a b :: string.
         (a = ''mi'' \<and> b = ''km'') \<or> (a = ''km'' \<and> b = ''mi'') \<or>
         (a = ''lb'' \<and> b = ''kg'') \<or> (a = ''kg'' \<and> b = ''lb'') \<or>
         (a = ''c'' \<and> b = ''f'') \<or> (a = ''f'' \<and> b = ''c''))"
  have t: "\<forall>(a, ca) \<in> set unit_codes. \<forall>(b, cb) \<in> set unit_codes.
      ca = cb \<longrightarrow> a \<noteq> b \<longrightarrow> D a b"
    unfolding D_def by (simp add: unit_codes_def)
  have u: "\<forall>(b, cb) \<in> set unit_codes. cat = cb \<longrightarrow> a \<noteq> b \<longrightarrow> D a b"
    using bspec [OF t category_of_code_mem [OF assms(1)]] by (simp only: split_conv)
  have "cat = cat \<longrightarrow> a \<noteq> b \<longrightarrow> D a b"
    using bspec [OF u category_of_code_mem [OF assms(2)]] by (simp only: split_conv)
  then have "D a b" using assms(3) by simp
  then show ?thesis unfolding D_def .
qed

lemma spec_formula_pairs:
  "spec_formula ''mi'' ''km'' q = Some (q * 1.609344)"
  "spec_formula ''km'' ''mi'' q = Some (q / 1.609344)"
  "spec_formula ''lb'' ''kg'' q = Some (q * 0.45359237)"
  "spec_formula ''kg'' ''lb'' q = Some (q / 0.45359237)"
  "spec_formula ''c'' ''f'' q = Some (q * 9 / 5 + 32)"
  "spec_formula ''f'' ''c'' q = Some ((q - 32) * 5 / 9)"
  by (simp_all add: spec_formula_def)

lemma spec_formula_binary64_pairs:
  "spec_formula_binary64 ''mi'' ''km'' x = Some (float_mul x (binary64 1.609344))"
  "spec_formula_binary64 ''km'' ''mi'' x = Some (float_div x (binary64 1.609344))"
  "spec_formula_binary64 ''lb'' ''kg'' x = Some (float_mul x (binary64 0.45359237))"
  "spec_formula_binary64 ''kg'' ''lb'' x = Some (float_div x (binary64 0.45359237))"
  "spec_formula_binary64 ''c'' ''f'' x =
     Some (float_add (float_div (float_mul x (Finite 9)) (Finite 5)) (Finite 32))"
  "spec_formula_binary64 ''f'' ''c'' x =
     Some (float_div (float_mul (float_sub x (Finite 32)) (Finite 5)) (Finite 9))"
  unfolding spec_formula_binary64_def by simp_all

text \<open>
  On a value of magnitude at most one million each formula in binary64 gives a finite
  value within \<open>0.00000001\<close> of the exact one.
\<close>

lemma spec_formula_binary64_near:
  assumes "category_of_code a = Some cat" and "category_of_code b = Some cat" and "a \<noteq> b"
    and "\<bar>q\<bar> \<le> 1000000"
  shows "\<exists>e r. spec_formula a b q = Some e \<and> spec_formula_binary64 a b (Finite q) = Some (Finite r) \<and>
    \<bar>r - e\<bar> \<le> 1 / 100000000"
proof -
  have q: "\<bar>q\<bar> \<le> 2300000" "\<bar>q\<bar> \<le> 1850000" using assms(4) by simp_all
  show ?thesis
    using distinct_codes_cases [OF assms(1-3)]
  proof (elim disjE conjE)
    assume ab: "a = ''mi''" "b = ''km''"
    from formula_mi_km_near [OF q(1)] show ?thesis
      unfolding ab spec_formula_pairs spec_formula_binary64_pairs by blast
  next
    assume ab: "a = ''km''" "b = ''mi''"
    from formula_km_mi_near [OF q(1)] show ?thesis
      unfolding ab spec_formula_pairs spec_formula_binary64_pairs by blast
  next
    assume ab: "a = ''lb''" "b = ''kg''"
    from formula_lb_kg_near [OF q(1)] show ?thesis
      unfolding ab spec_formula_pairs spec_formula_binary64_pairs by blast
  next
    assume ab: "a = ''kg''" "b = ''lb''"
    from formula_kg_lb_near [OF q(1)] show ?thesis
      unfolding ab spec_formula_pairs spec_formula_binary64_pairs by blast
  next
    assume ab: "a = ''c''" "b = ''f''"
    from formula_c_f_near [OF q(2)] show ?thesis
      unfolding ab spec_formula_pairs spec_formula_binary64_pairs by blast
  next
    assume ab: "a = ''f''" "b = ''c''"
    from formula_f_c_near [OF q(2)] show ?thesis
      unfolding ab spec_formula_pairs spec_formula_binary64_pairs by blast
  qed
qed

subsection \<open>A request that passes every check\<close>

lemma NORMALIZE_keys_nonempty: "\<forall>(k, c) \<in> set NORMALIZE_items. k \<noteq> []"
  by (simp add: NORMALIZE_items_def)

lemma normalize_nonempty:
  assumes "normalize u = Some c"
  shows "u \<noteq> []"
  using NORMALIZE_cases [of "lower u" c] NORMALIZE_keys_nonempty assms
  unfolding normalize_def lower_def by fastforce

lemma convert_units_valid:
  assumes "normalize f = Some a" and "normalize t = Some b"
    and "category_of_code a = Some cat" and "category_of_code b = Some cat"
  shows "convert_units x f t =
    (if (cat = ''length'' \<or> cat = ''weight'') \<and> float_lt0 x
     then error_response 400
            [(''error'', JStr ''Negative value not allowed for selected unit type''),
             (''unit_type'', JStr cat), (''provided_value'', JFloat x)]
     else (case do_conversion cat a b x of
             Inl r \<Rightarrow> r
           | Inr converted \<Rightarrow>
               jsonify
                 [(''original_value'', JFloat x),
                  (''original_unit'', JStr f),
                  (''converted_value'', JFloat (py_round converted 6)),
                  (''converted_unit'', JStr t),
                  (''conversion_type'', JStr cat)]))"
proof -
  have "get_unit_type f = Some cat" "get_unit_type t = Some cat"
    using normalize_get_unit_type(1) assms by simp_all
  then show ?thesis
    using assms(1,2) by (simp add: convert_units_def)
qed

lemma convert_fields_strs:
  assumes "py_float P v = Some x" and "strip f \<noteq> []" and "strip t \<noteq> []"
  shows "convert_fields P v (JStr f) (JStr t) = convert_units x (strip f) (strip t)"
  using assms by (simp add: convert_fields_def nonempty_str_def str_strip_def)

lemma convert_valid:
  assumes "field req ''value'' = Some v"
    and "field req ''from_unit'' = Some (JStr f)"
    and "field req ''to_unit'' = Some (JStr t)"
    and "py_float P v = Some x"
    and "normalize (strip f) = Some a" and "normalize (strip t) = Some b"
    and "category_of_code a = Some cat" and "category_of_code b = Some cat"
    and "\<not> ((cat = ''length'' \<or> cat = ''weight'') \<and> float_lt0 x)"
    and "do_conversion cat a b x = Inr converted"
  shows "convert P req =
    jsonify
      [(''original_value'', JFloat x),
       (''original_unit'', JStr (strip f)),
       (''converted_value'', JFloat (py_round converted 6)),
       (''converted_unit'', JStr (strip t)),
       (''conversion_type'', JStr cat)]"
proof -
  have ne: "strip f \<noteq> []" "strip t \<noteq> []"
    using assms(5,6) normalize_nonempty by blast+
  have "convert P req = convert_units x (strip f) (strip t)"
    using convert_eq_convert_fields [OF assms(1-3)] convert_fields_strs [OF assms(4) ne]
    by simp
  also have "\<dots> = jsonify
      [(''original_value'', JFloat x),
       (''original_unit'', JStr (strip f)),
       (''converted_value'', JFloat (py_round converted 6)),
       (''converted_unit'', JStr (strip t)),
       (''conversion_type'', JStr cat)]"
    using convert_units_valid [OF assms(5-8), of x] assms(9,10) by simp
  finally show ?thesis .
qed

lemma canonical_codes_normalize:
  "\<forall>(c, cat) \<in> set unit_codes. normalize (strip c) = Some c"
  by code_simp

lemma field_conversion_request:
  "field (conversion_request v f t) ''value'' = Some v"
  "field (conversion_request v f t) ''from_unit'' = Some (JStr f)"
  "field (conversion_request v f t) ''to_unit'' = Some (JStr t)"
  by (simp_all add: field_def conversion_request_def)

section \<open>The claims\<close>

subsection \<open>C1: the formula of each pair of codes\<close>

text \<open>
  Claim C1. A request that passes every check (a value that coerces to a number, two
  recognised units of one category, no negative length or weight) and whose units have
  distinct canonical codes is answered with the formula the specification gives for that
  pair of codes, evaluated in binary64 as the program evaluates it: the value left by the
  conversion step, before rounding, is \<open>spec_formula_binary64 a b x\<close>, and the
  \<open>converted_value\<close> of the response is that value rounded to six decimals. When the
  value is finite and of magnitude at most one million, the value left by the conversion
  step is within \<open>0.00000001\<close> of the exact number \<open>spec_formula a b q\<close>.
\<close>

theorem convert_applies_spec_formula:
  assumes "field req ''value'' = Some v"
    and "field req ''from_unit'' = Some (JStr f)"
    and "field req ''to_unit'' = Some (JStr t)"
    and "py_float P v = Some x"
    and "normalize (strip f) = Some a" and "normalize (strip t) = Some b"
    and "category_of_code a = Some cat" and "category_of_code b = Some cat"
    and "a \<noteq> b"
    and "\<not> ((cat = ''length'' \<or> cat = ''weight'') \<and> float_lt0 x)"
  shows "\<exists>r. spec_formula_binary64 a b x = Some r \<and>
    do_conversion cat a b x = Inr r \<and>
    convert P req =
      jsonify
        [(''original_value'', JFloat x),
         (''original_unit'', JStr (strip f)),
         (''converted_value'', JFloat (py_round r 6)),
         (''converted_unit'', JStr (strip t)),
         (''conversion_type'', JStr cat)] \<and>
    (\<forall>q. x = Finite q \<and> \<bar>q\<bar> \<le> 1000000 \<longrightarrow>
       (\<exists>e r'. spec_formula a b q = Some e \<and> r = Finite r' \<and> \<bar>r' - e\<bar> \<le> 1 / 100000000))"
proof -
  obtain r where r: "spec_convert_binary64 a b x = Some r" "do_conversion cat a b x = Inr r"
    using do_conversion_spec [OF assms(7,8)] by blast
  have 1: "spec_formula_binary64 a b x = Some r"
    using r(1) assms(9) by (simp add: spec_convert_binary64_def)
  note 3 = convert_valid [OF assms(1-8,10) r(2)]
  have 4: "\<forall>q. x = Finite q \<and> \<bar>q\<bar> \<le> 1000000 \<longrightarrow>
       (\<exists>e r'. spec_formula a b q = Some e \<and> r = Finite r' \<and> \<bar>r' - e\<bar> \<le> 1 / 100000000)"
  proof (intro allI impI, elim conjE)
    fix q
    assume x: "x = Finite q" and q: "\<bar>q\<bar> \<le> 1000000"
    from spec_formula_binary64_near [OF assms(7-9) q] obtain e r' where
      e: "spec_formula a b q = Some e" "spec_formula_binary64 a b (Finite q) = Some (Finite r')"
        "\<bar>r' - e\<bar> \<le> 1 / 100000000"
      by blast
    have "r = Finite r'" using 1 e(2) unfolding x by simp
    with e(1,3) show "\<exists>e r'. spec_formula a b q = Some e \<and> r = Finite r' \<and> \<bar>r' - e\<bar> \<le> 1 / 100000000"
      by blast
  qed
  from 1 r(2) 3 4 show ?thesis by blast
qed

theorem convert_applies_spec_formula_witness:
  "field (conversion_request (JInt 5) ''  Miles '' ''KM'') ''value'' = Some (JInt 5) \<and>
   field (conversion_request (JInt 5) ''  Miles '' ''KM'') ''from_unit'' = Some (JStr ''  Miles '') \<and>
   field (conversion_request (JInt 5) ''  Miles '' ''KM'') ''to_unit'' = Some (JStr ''KM'') \<and>
   py_float Map.empty (JInt 5) = Some (Finite 5) \<and>
   normalize (strip ''  Miles '') = Some ''mi'' \<and> normalize (strip ''KM'') = Some ''km'' \<and>
   category_of_code ''mi'' = Some ''length'' \<and> category_of_code ''km'' = Some ''length'' \<and>
   ''mi'' \<noteq> ''km'' \<and> \<not> ((''length'' = ''length'' \<or> ''length'' = ''weight'') \<and> float_lt0 (Finite 5)) \<and>
   spec_formula_binary64 ''mi'' ''km'' (Finite 5) = Some (binary64 8.04672) \<and>
   do_conversion ''length'' ''mi'' ''km'' (Finite 5) = Inr (binary64 8.04672) \<and>
   convert Map.empty (conversion_request (JInt 5) ''  Miles '' ''KM'') =
      jsonify
        [(''original_value'', JFloat (Finite 5)),
         (''original_unit'', JStr ''Miles''),
         (''converted_value'', JFloat (binary64 8.04672)),
         (''converted_unit'', JStr ''KM''),
         (''conversion_type'', JStr ''length'')] \<and>
   \<bar>5 :: rat\<bar> \<le> 1000000 \<and>
   (\<exists>e r'. spec_formula ''mi'' ''km'' 5 = Some e \<and> binary64 8.04672 = Finite r' \<and>
      \<bar>r' - e\<bar> \<le> 1 / 100000000)"
proof -
  let ?req = "conversion_request (JInt 5) ''  Miles '' ''KM''"
  have h1: "field ?req ''value'' = Some (JInt 5)"
    and h2: "field ?req ''from_unit'' = Some (JStr ''  Miles '')"
    and h3: "field ?req ''to_unit'' = Some (JStr ''KM'')"
    by (simp_all add: field_def conversion_request_def)
  have h4: "py_float Map.empty (JInt 5) = Some (Finite 5)" by code_simp
  have h5: "normalize (strip ''  Miles '') = Some ''mi''" by code_simp
  have h6: "normalize (strip ''KM'') = Some ''km''" by code_simp
  have h7: "category_of_code ''mi'' = Some ''length''"
    and h8: "category_of_code ''km'' = Some ''length''"
    by (simp_all add: category_of_code_def unit_codes_def)
  have h9: "''mi'' \<noteq> ''km''" by simp
  have h10: "\<not> ((''length'' = ''length'' \<or> ''length'' = ''weight'') \<and> float_lt0 (Finite 5))"
    by (simp add: float_lt0_def)
  have f: "spec_formula_binary64 ''mi'' ''km'' (Finite 5) = Some (binary64 8.04672)"
    by code_simp
  have s: "strip ''  Miles '' = ''Miles''" "strip ''KM'' = ''KM''" by code_simp+
  have r: "py_round (binary64 8.04672) 6 = binary64 8.04672" by code_simp
  have k: "\<bar>5 :: rat\<bar> \<le> 1000000" by simp
  show ?thesis
    using convert_applies_spec_formula [OF h1 h2 h3 h4 h5 h6 h7 h8 h9 h10]
  proof (elim exE conjE)
    fix r
    assume a: "spec_formula_binary64 ''mi'' ''km'' (Finite 5) = Some r"
      and b: "do_conversion ''length'' ''mi'' ''km'' (Finite 5) = Inr r"
      and c: "convert Map.empty ?req =
        jsonify
          [(''original_value'', JFloat (Finite 5)),
           (''original_unit'', JStr (strip ''  Miles '')),
           (''converted_value'', JFloat (py_round r 6)),
           (''converted_unit'', JStr (strip ''KM'')),
           (''conversion_type'', JStr ''length'')]"
      and d: "\<forall>q. Finite 5 = Finite q \<and> \<bar>q\<bar> \<le> 1000000 \<longrightarrow>
         (\<exists>e r'. spec_formula ''mi'' ''km'' q = Some e \<and> r = Finite r' \<and>
            \<bar>r' - e\<bar> \<le> 1 / 100000000)"
    have e: "r = binary64 8.04672" using a unfolding f option.inject by (rule sym)
    have kk: "Finite 5 = Finite 5 \<and> \<bar>5 :: rat\<bar> \<le> 1000000" using k by simp
    have d': "\<exists>e r'. spec_formula ''mi'' ''km'' 5 = Some e \<and> r = Finite r' \<and>
        \<bar>r' - e\<bar> \<le> 1 / 100000000"
      by (rule d [rule_format, OF kk])
    show ?thesis
      using h1 h2 h3 h4 h5 h6 h7 h8 h9 h10 f b [unfolded e] c [unfolded e s r] k d' [unfolded e]
      by (intro conjI)
  qed
qed

subsection \<open>C2: identity\<close>

lemma do_conversion_same_table:
  "\<forall>(a, ca) \<in> set unit_codes. do_conversion ca a a x = Inr x"
  by (simp add: unit_codes_def do_conversion_def)

lemma do_conversion_same:
  assumes "category_of_code a = Some cat"
  shows "do_conversion cat a a x = Inr x"
  using do_conversion_same_table [of x] category_of_code_mem [OF assms] by blast

text \<open>
  Claim C2, as the code has it. When both unit strings normalise to the same canonical
  code (the same spelling, or two spellings of one unit) and the value is admissible for
  the category, the response carries the float \<open>x\<close> that \<open>float(value)\<close> gave, as
  \<open>original_value\<close>, and \<open>round(x, 6)\<close> as \<open>converted_value\<close>. For a finite
  \<open>x\<close> that is the float nearest to the decimal of six digits nearest to \<open>x\<close>, which
  is within \<open>0.0000005\<close> of \<open>x\<close>; when the magnitude of \<open>x\<close> is at most one million
  the \<open>converted_value\<close> itself is within \<open>0.000000502\<close> of \<open>x\<close>. The values
  \<open>inf\<close>, \<open>-inf\<close> and \<open>nan\<close> come back as they are.
\<close>

theorem convert_identity:
  assumes "field req ''value'' = Some v"
    and "field req ''from_unit'' = Some (JStr f)"
    and "field req ''to_unit'' = Some (JStr t)"
    and "py_float P v = Some x"
    and "normalize (strip f) = Some a" and "normalize (strip t) = Some a"
    and "category_of_code a = Some cat"
    and "\<not> ((cat = ''length'' \<or> cat = ''weight'') \<and> float_lt0 x)"
  shows "convert P req =
      jsonify
        [(''original_value'', JFloat x),
         (''original_unit'', JStr (strip f)),
         (''converted_value'', JFloat (py_round x 6)),
         (''converted_unit'', JStr (strip t)),
         (''conversion_type'', JStr cat)] \<and>
    (case x of
       Finite q \<Rightarrow>
         py_round x 6 = binary64 (round6 q) \<and> \<bar>round6 q - q\<bar> \<le> 1 / 2000000 \<and>
         (\<bar>q\<bar> \<le> 1000000 \<longrightarrow>
            (\<exists>u. py_round x 6 = Finite u \<and> \<bar>u - q\<bar> \<le> 502 / 1000000000))
     | _ \<Rightarrow> py_round x 6 = x)"
proof
  show "convert P req =
      jsonify
        [(''original_value'', JFloat x),
         (''original_unit'', JStr (strip f)),
         (''converted_value'', JFloat (py_round x 6)),
         (''converted_unit'', JStr (strip t)),
         (''conversion_type'', JStr cat)]"
    by (rule convert_valid [OF assms(1-7) assms(7,8) do_conversion_same [OF assms(7)]])
  show "case x of
       Finite q \<Rightarrow>
         py_round x 6 = binary64 (round6 q) \<and> \<bar>round6 q - q\<bar> \<le> 1 / 2000000 \<and>
         (\<bar>q\<bar> \<le> 1000000 \<longrightarrow>
            (\<exists>u. py_round x 6 = Finite u \<and> \<bar>u - q\<bar> \<le> 502 / 1000000000))
     | _ \<Rightarrow> py_round x 6 = x"
  proof (cases x)
    case (Finite q)
    have "\<bar>q\<bar> \<le> 1000000 \<longrightarrow>
        (\<exists>u. py_round (Finite q) 6 = Finite u \<and> \<bar>u - q\<bar> \<le> 502 / 1000000000)"
    proof
      assume "\<bar>q\<bar> \<le> 1000000"
      then have "\<bar>q\<bar> \<le> 16000000" by simp
      from py_round_near [OF this]
      show "\<exists>u. py_round (Finite q) 6 = Finite u \<and> \<bar>u - q\<bar> \<le> 502 / 1000000000" by blast
    qed
    then show ?thesis
      unfolding Finite pyfloat.case using round6_bound [of q] py_round_Finite [of q]
      by (intro conjI)
  qed (simp_all add: py_round_def)
qed

theorem convert_identity_witness:
  "field (conversion_request (JFloat (Finite 0.0009765625)) ''Miles'' '' MI '') ''value'' =
     Some (JFloat (Finite 0.0009765625)) \<and>
   field (conversion_request (JFloat (Finite 0.0009765625)) ''Miles'' '' MI '') ''from_unit'' =
     Some (JStr ''Miles'') \<and>
   field (conversion_request (JFloat (Finite 0.0009765625)) ''Miles'' '' MI '') ''to_unit'' =
     Some (JStr '' MI '') \<and>
   py_float Map.empty (JFloat (Finite 0.0009765625)) = Some (Finite 0.0009765625) \<and>
   binary64 0.0009765625 = Finite 0.0009765625 \<and>
   normalize (strip ''Miles'') = Some ''mi'' \<and> normalize (strip '' MI '') = Some ''mi'' \<and>
   category_of_code ''mi'' = Some ''length'' \<and>
   \<not> ((''length'' = ''length'' \<or> ''length'' = ''weight'') \<and> float_lt0 (Finite 0.0009765625)) \<and>
   convert Map.empty (conversion_request (JFloat (Finite 0.0009765625)) ''Miles'' '' MI '') =
      jsonify
        [(''original_value'', JFloat (Finite 0.0009765625)),
         (''original_unit'', JStr ''Miles''),
         (''converted_value'', JFloat (binary64 0.000977)),
         (''converted_unit'', JStr ''MI''),
         (''conversion_type'', JStr ''length'')] \<and>
   \<bar>0.0009765625 :: rat\<bar> \<le> 1000000 \<and>
   (\<exists>u. binary64 0.000977 = Finite u \<and> \<bar>u - 0.0009765625\<bar> \<le> 502 / 1000000000)"
proof -
  let ?v = "JFloat (Finite 0.0009765625)"
  let ?req = "conversion_request ?v ''Miles'' '' MI ''"
  have h1: "field ?req ''value'' = Some ?v"
    and h2: "field ?req ''from_unit'' = Some (JStr ''Miles'')"
    and h3: "field ?req ''to_unit'' = Some (JStr '' MI '')"
    by (simp_all add: field_def conversion_request_def)
  have h4: "py_float Map.empty ?v = Some (Finite 0.0009765625)"
    by (simp add: py_float_def)
  have rep: "binary64 0.0009765625 = Finite 0.0009765625" by code_simp
  have h5: "normalize (strip ''Miles'') = Some ''mi''" by code_simp
  have h6: "normalize (strip '' MI '') = Some ''mi''" by code_simp
  have h7: "category_of_code ''mi'' = Some ''length''"
    by (simp add: category_of_code_def unit_codes_def)
  have h8: "\<not> ((''length'' = ''length'' \<or> ''length'' = ''weight'') \<and>
      float_lt0 (Finite 0.0009765625))"
    by (simp add: float_lt0_def)
  have s: "strip ''Miles'' = ''Miles''" "strip '' MI '' = ''MI''" by code_simp+
  have r: "py_round (Finite 0.0009765625) 6 = binary64 0.000977" by code_simp
  have k: "\<bar>0.0009765625 :: rat\<bar> \<le> 1000000" by simp
  note t = convert_identity [OF h1 h2 h3 h4 h5 h6 h7 h8]
  note c = t [THEN conjunct1, unfolded s r]
  have "\<bar>0.0009765625 :: rat\<bar> \<le> 1000000 \<longrightarrow>
      (\<exists>u. py_round (Finite 0.0009765625) 6 = Finite u \<and> \<bar>u - 0.0009765625\<bar> \<le> 502 / 1000000000)"
    using t [THEN conjunct2] unfolding pyfloat.case by (elim conjE)
  then have b: "\<exists>u. binary64 0.000977 = Finite u \<and> \<bar>u - 0.0009765625\<bar> \<le> 502 / 1000000000"
    using k unfolding r by (rule mp)
  show ?thesis
    using h1 h2 h3 h4 rep h5 h6 h7 h8 c k b by (intro conjI)
qed

text \<open>
  As the claim states it, with the value sent in place of the float it coerces to, the
  property fails: the integer \<open>9007199254740993\<close> is not a binary64 value, \<open>float\<close>
  rounds it to \<open>9007199254740992.0\<close>, and that is the \<open>converted_value\<close> of the
  response, \<open>1\<close> away from the value sent.
\<close>

theorem convert_identity_counterexample:
  "convert Map.empty (conversion_request (JInt 9007199254740993) ''km'' ''kilometers'') =
      jsonify
        [(''original_value'', JFloat (Finite 9007199254740992)),
         (''original_unit'', JStr ''km''),
         (''converted_value'', JFloat (Finite 9007199254740992)),
         (''converted_unit'', JStr ''kilometers''),
         (''conversion_type'', JStr ''length'')] \<and>
   \<bar>9007199254740992 - of_int 9007199254740993 :: rat\<bar> = 1"
  by code_simp

subsection \<open>C4: negative values\<close>

text \<open>
  Claim C4. For a request whose value coerces to a number and whose units are both
  recognised and of one category: when the category is length or weight and the number
  is negative (\<open>-inf\<close> included), the response is the status 400 error
  \<open>Negative value not allowed for selected unit type\<close> and carries no converted
  value; when the category is temperature every number is accepted and the status is
  200. The request \<open>-10\<close> from \<open>celsius\<close> to \<open>fahrenheit\<close> is answered with
  \<open>converted_value\<close> \<open>14.0\<close>.
\<close>

theorem negative_value_domain:
  assumes "field req ''value'' = Some v"
    and "field req ''from_unit'' = Some (JStr f)"
    and "field req ''to_unit'' = Some (JStr t)"
    and "py_float P v = Some x"
    and "get_unit_type (strip f) = Some cat"
    and "get_unit_type (strip t) = Some cat"
  shows "(float_lt0 x \<and> (cat = ''length'' \<or> cat = ''weight'') \<longrightarrow>
      convert P req =
        error_response 400
          [(''error'', JStr ''Negative value not allowed for selected unit type''),
           (''unit_type'', JStr cat), (''provided_value'', JFloat x)]) \<and>
    (cat = ''temperature'' \<longrightarrow> status_of (convert P req) = 200) \<and>
    convert P (conversion_request (JInt (- 10)) ''celsius'' ''fahrenheit'') =
      jsonify
        [(''original_value'', JFloat (Finite (- 10))),
         (''original_unit'', JStr ''celsius''),
         (''converted_value'', JFloat (Finite 14)),
         (''converted_unit'', JStr ''fahrenheit''),
         (''conversion_type'', JStr ''temperature'')]"
proof -
  obtain a where a: "normalize (strip f) = Some a" "category_of_code a = Some cat"
    using get_unit_type_normalize [OF assms(5)] by blast
  obtain b where b: "normalize (strip t) = Some b" "category_of_code b = Some cat"
    using get_unit_type_normalize [OF assms(6)] by blast
  have ne: "strip f \<noteq> []" "strip t \<noteq> []"
    using a(1) b(1) normalize_nonempty by blast+
  have cu: "convert P req = convert_units x (strip f) (strip t)"
    using convert_eq_convert_fields [OF assms(1-3)] convert_fields_strs [OF assms(4) ne]
    by simp
  note cv = convert_units_valid [OF a(1) b(1) a(2) b(2), of x]
  have 1: "float_lt0 x \<and> (cat = ''length'' \<or> cat = ''weight'') \<longrightarrow>
      convert P req =
        error_response 400
          [(''error'', JStr ''Negative value not allowed for selected unit type''),
           (''unit_type'', JStr cat), (''provided_value'', JFloat x)]"
    unfolding cu cv by simp
  obtain c where c: "do_conversion cat a b x = Inr c"
    using do_conversion_total [OF a(2) b(2)] by blast
  have 2: "cat = ''temperature'' \<longrightarrow> status_of (convert P req) = 200"
    unfolding cu cv c by (simp add: status_of_def jsonify_def)
  have 3: "convert P (conversion_request (JInt (- 10)) ''celsius'' ''fahrenheit'') =
      jsonify
        [(''original_value'', JFloat (Finite (- 10))),
         (''original_unit'', JStr ''celsius''),
         (''converted_value'', JFloat (Finite 14)),
         (''converted_unit'', JStr ''fahrenheit''),
         (''conversion_type'', JStr ''temperature'')]"
  proof -
    have "binary64 (- 10) = Finite (- 10)" by code_simp
    then have p: "py_float P (JInt (- 10)) = Some (Finite (- 10))" by (simp add: py_float_def)
    have n: "normalize (strip ''celsius'') = Some ''c''"
      "normalize (strip ''fahrenheit'') = Some ''f''" by code_simp+
    have k: "category_of_code ''c'' = Some ''temperature''"
      "category_of_code ''f'' = Some ''temperature''"
      by (simp_all add: category_of_code_def unit_codes_def)
    have d: "\<not> ((''temperature'' = ''length'' \<or> ''temperature'' = ''weight'') \<and>
        float_lt0 (Finite (- 10)))"
      by simp
    have f: "do_conversion ''temperature'' ''c'' ''f'' (Finite (- 10)) = Inr (Finite 14)"
      by code_simp
    have s: "strip ''celsius'' = ''celsius''" "strip ''fahrenheit'' = ''fahrenheit''"
      by code_simp+
    have r: "py_round (Finite 14) 6 = Finite 14" by code_simp
    show ?thesis
      using convert_valid [OF field_conversion_request p n k d f]
      unfolding s r .
  qed
  from 1 2 3 show ?thesis by (intro conjI)
qed

theorem negative_value_domain_witness:
  "field (conversion_request (JInt (- 5)) ''mi'' ''km'') ''value'' = Some (JInt (- 5)) \<and>
   field (conversion_request (JInt (- 5)) ''mi'' ''km'') ''from_unit'' = Some (JStr ''mi'') \<and>
   field (conversion_request (JInt (- 5)) ''mi'' ''km'') ''to_unit'' = Some (JStr ''km'') \<and>
   py_float Map.empty (JInt (- 5)) = Some (Finite (- 5)) \<and>
   get_unit_type (strip ''mi'') = Some ''length'' \<and>
   get_unit_type (strip ''km'') = Some ''length'' \<and>
   float_lt0 (Finite (- 5)) \<and>
   convert Map.empty (conversion_request (JInt (- 5)) ''mi'' ''km'') =
     error_response 400
       [(''error'', JStr ''Negative value not allowed for selected unit type''),
        (''unit_type'', JStr ''length''), (''provided_value'', JFloat (Finite (- 5)))] \<and>
   field (conversion_request (JFloat (Finite (- 40))) ''C'' ''F'') ''value'' =
     Some (JFloat (Finite (- 40))) \<and>
   field (conversion_request (JFloat (Finite (- 40))) ''C'' ''F'') ''from_unit'' =
     Some (JStr ''C'') \<and>
   field (conversion_request (JFloat (Finite (- 40))) ''C'' ''F'') ''to_unit'' =
     Some (JStr ''F'') \<and>
   py_float Map.empty (JFloat (Finite (- 40))) = Some (Finite (- 40)) \<and>
   get_unit_type (strip ''C'') = Some ''temperature'' \<and>
   get_unit_type (strip ''F'') = Some ''temperature'' \<and>
   status_of (convert Map.empty (conversion_request (JFloat (Finite (- 40))) ''C'' ''F'')) = 200"
proof -
  let ?r1 = "conversion_request (JInt (- 5)) ''mi'' ''km''"
  let ?r2 = "conversion_request (JFloat (Finite (- 40))) ''C'' ''F''"
  note a1 = field_conversion_request [of "JInt (- 5)" "''mi''" "''km''"]
  note b1 = field_conversion_request [of "JFloat (Finite (- 40))" "''C''" "''F''"]
  have a2: "py_float Map.empty (JInt (- 5)) = Some (Finite (- 5))" by code_simp
  have a3: "get_unit_type (strip ''mi'') = Some ''length''"
    and a4: "get_unit_type (strip ''km'') = Some ''length''" by code_simp+
  have a5: "float_lt0 (Finite (- 5))" by (simp add: float_lt0_def)
  have b2: "py_float Map.empty (JFloat (Finite (- 40))) = Some (Finite (- 40))"
    by (simp add: py_float_def)
  have b3: "get_unit_type (strip ''C'') = Some ''temperature''"
    and b4: "get_unit_type (strip ''F'') = Some ''temperature''" by code_simp+
  have A: "convert Map.empty ?r1 =
     error_response 400
       [(''error'', JStr ''Negative value not allowed for selected unit type''),
        (''unit_type'', JStr ''length''), (''provided_value'', JFloat (Finite (- 5)))]"
    using negative_value_domain [OF a1 a2 a3 a4, THEN conjunct1] a5 by simp
  have B: "status_of (convert Map.empty ?r2) = 200"
    using negative_value_domain [OF b1 b2 b3 b4, THEN conjunct2, THEN conjunct1] by simp
  show ?thesis
    using a1 a2 a3 a4 a5 A b1 b2 b3 b4 B by (intro conjI)
qed

subsection \<open>C5: unknown unit\<close>

lemma allowed_units_sorted_props:
  "sorted allowed_units_sorted" "allowed_units_sorted \<noteq> []"
  "set allowed_units_sorted = dom ALLOWED_UNITS" "distinct allowed_units_sorted"
proof -
  show "sorted allowed_units_sorted" by (simp add: allowed_units_sorted_def)
  have "length allowed_units_sorted = 19"
    by (simp add: allowed_units_sorted_def ALLOWED_UNITS_items_def)
  then show "allowed_units_sorted \<noteq> []" by auto
  show "set allowed_units_sorted = dom ALLOWED_UNITS"
    by (simp add: allowed_units_sorted_def ALLOWED_UNITS_def dom_map_of_conv_image_fst)
  show "distinct allowed_units_sorted"
    unfolding allowed_units_sorted_def distinct_sort ALLOWED_UNITS_items_def by simp
qed

text \<open>
  Claim C5. A request that has passed the checks before the registry lookup (a value
  that coerces to a number, two unit strings that are not empty after trimming) and
  whose \<open>from_unit\<close> or \<open>to_unit\<close>, trimmed and lowered, is not a key of
  \<open>ALLOWED_UNITS\<close> is answered with status 422, the error \<open>Unsupported from_unit\<close>
  (or \<open>Unsupported to_unit\<close> when only the second is unknown), the trimmed string
  under \<open>provided\<close>, and under \<open>allowed_units\<close> the sorted list of the keys of
  \<open>ALLOWED_UNITS\<close>: not empty, sorted, without repetition, and holding every accepted
  spelling.
\<close>

theorem unknown_unit_response:
  assumes "field req ''value'' = Some v"
    and "field req ''from_unit'' = Some (JStr f)"
    and "field req ''to_unit'' = Some (JStr t)"
    and "py_float P v = Some x"
    and "strip f \<noteq> []" and "strip t \<noteq> []"
    and "get_unit_type (strip f) = None \<or> get_unit_type (strip t) = None"
  shows "convert P req =
      error_response 422
        [(''error'', JStr (if get_unit_type (strip f) = None then ''Unsupported from_unit''
                           else ''Unsupported to_unit'')),
         (''provided'', JStr (if get_unit_type (strip f) = None then strip f else strip t)),
         (''allowed_units'', JArr (map JStr allowed_units_sorted))] \<and>
    allowed_units_sorted \<noteq> [] \<and> sorted allowed_units_sorted \<and>
    distinct allowed_units_sorted \<and>
    set allowed_units_sorted = dom ALLOWED_UNITS"
proof -
  have cu: "convert P req = convert_units x (strip f) (strip t)"
    using convert_eq_convert_fields [OF assms(1-3)] convert_fields_strs [OF assms(4-6)]
    by simp
  have "convert_units x (strip f) (strip t) =
      error_response 422
        [(''error'', JStr (if get_unit_type (strip f) = None then ''Unsupported from_unit''
                           else ''Unsupported to_unit'')),
         (''provided'', JStr (if get_unit_type (strip f) = None then strip f else strip t)),
         (''allowed_units'', JArr (map JStr allowed_units_sorted))]"
    using assms(7) unfolding convert_units_def by (auto split: option.splits)
  with cu allowed_units_sorted_props show ?thesis by simp
qed

theorem unknown_unit_response_witness:
  "field (conversion_request (JInt 5) ''banana'' ''km'') ''value'' = Some (JInt 5) \<and>
   field (conversion_request (JInt 5) ''banana'' ''km'') ''from_unit'' = Some (JStr ''banana'') \<and>
   field (conversion_request (JInt 5) ''banana'' ''km'') ''to_unit'' = Some (JStr ''km'') \<and>
   py_float Map.empty (JInt 5) = Some (Finite 5) \<and>
   strip ''banana'' \<noteq> [] \<and> strip ''km'' \<noteq> [] \<and>
   get_unit_type (strip ''banana'') = None \<and>
   convert Map.empty (conversion_request (JInt 5) ''banana'' ''km'') =
     error_response 422
       [(''error'', JStr ''Unsupported from_unit''),
        (''provided'', JStr ''banana''),
        (''allowed_units'', JArr (map JStr
          [''c'', ''celsius'', ''f'', ''fahrenheit'', ''kg'', ''kilogram'', ''kilograms'',
           ''kilometer'', ''kilometers'', ''kilometre'', ''kilometres'', ''km'', ''lb'',
           ''lbs'', ''mi'', ''mile'', ''miles'', ''pound'', ''pounds'']))]"
proof -
  note h = field_conversion_request [of "JInt 5" "''banana''" "''km''"]
  have p: "py_float Map.empty (JInt 5) = Some (Finite 5)" by code_simp
  have s: "strip ''banana'' = ''banana''" "strip ''km'' = ''km''" by code_simp+
  have ne: "strip ''banana'' \<noteq> []" "strip ''km'' \<noteq> []" unfolding s by simp_all
  have u: "get_unit_type (strip ''banana'') = None" by code_simp
  have l: "allowed_units_sorted =
          [''c'', ''celsius'', ''f'', ''fahrenheit'', ''kg'', ''kilogram'', ''kilograms'',
           ''kilometer'', ''kilometers'', ''kilometre'', ''kilometres'', ''km'', ''lb'',
           ''lbs'', ''mi'', ''mile'', ''miles'', ''pound'', ''pounds'']"
    by code_simp
  have c: "convert Map.empty (conversion_request (JInt 5) ''banana'' ''km'') =
     error_response 422
       [(''error'', JStr ''Unsupported from_unit''),
        (''provided'', JStr ''banana''),
        (''allowed_units'', JArr (map JStr allowed_units_sorted))]"
    using unknown_unit_response [OF h p ne disjI1 [OF u], THEN conjunct1] u
    by (simp add: s)
  show ?thesis using h p ne u c [unfolded l] by (intro conjI)
qed

subsection \<open>C6: the order of the type checks\<close>

text \<open>
  Claim C6, as the code has it. The handler coerces \<open>value\<close> first and looks at the
  unit fields afterwards, \<open>from_unit\<close> before \<open>to_unit\<close>. A request whose value does
  not coerce to a number is answered with \<open>value must be a number\<close> whatever its unit
  fields are; \<open>from_unit must be a non-empty string\<close> is reported only when the value
  coerces, and \<open>to_unit must be a non-empty string\<close> only when the value coerces and
  \<open>from_unit\<close> is a string that is not empty after trimming.
\<close>

theorem validation_order:
  assumes "field req ''value'' = Some v"
    and "field req ''from_unit'' = Some f"
    and "field req ''to_unit'' = Some t"
  shows "(py_float P v = None \<longrightarrow>
      convert P req =
        error_response 422 [(''error'', JStr ''value must be a number''), (''provided'', v)]) \<and>
    (py_float P v \<noteq> None \<and> \<not> nonempty_str f \<longrightarrow>
      convert P req =
        error_response 422
          [(''error'', JStr ''from_unit must be a non-empty string''), (''provided'', f)]) \<and>
    (py_float P v \<noteq> None \<and> nonempty_str f \<and> \<not> nonempty_str t \<longrightarrow>
      convert P req =
        error_response 422
          [(''error'', JStr ''to_unit must be a non-empty string''), (''provided'', t)])"
  unfolding convert_eq_convert_fields [OF assms] convert_fields_def
  by (auto split: option.splits)

theorem validation_order_witness:
  "field (conversion_request (JStr ''abc'') ''   '' ''km'') ''value'' = Some (JStr ''abc'') \<and>
   field (conversion_request (JStr ''abc'') ''   '' ''km'') ''from_unit'' = Some (JStr ''   '') \<and>
   field (conversion_request (JStr ''abc'') ''   '' ''km'') ''to_unit'' = Some (JStr ''km'') \<and>
   py_float Map.empty (JStr ''abc'') = None \<and>
   \<not> nonempty_str (JStr ''   '') \<and>
   convert Map.empty (conversion_request (JStr ''abc'') ''   '' ''km'') =
     error_response 422
       [(''error'', JStr ''value must be a number''), (''provided'', JStr ''abc'')] \<and>
   field (conversion_request (JInt 5) ''   '' ''km'') ''value'' = Some (JInt 5) \<and>
   field (conversion_request (JInt 5) ''   '' ''km'') ''from_unit'' = Some (JStr ''   '') \<and>
   field (conversion_request (JInt 5) ''   '' ''km'') ''to_unit'' = Some (JStr ''km'') \<and>
   py_float Map.empty (JInt 5) \<noteq> None \<and>
   convert Map.empty (conversion_request (JInt 5) ''   '' ''km'') =
     error_response 422
       [(''error'', JStr ''from_unit must be a non-empty string''),
        (''provided'', JStr ''   '')]"
proof -
  note a = field_conversion_request [of "JStr ''abc''" "''   ''" "''km''"]
  note b = field_conversion_request [of "JInt 5" "''   ''" "''km''"]
  have p1: "py_float Map.empty (JStr ''abc'') = None" by (simp add: py_float_def)
  have p2: "py_float Map.empty (JInt 5) \<noteq> None" by code_simp
  have n: "\<not> nonempty_str (JStr ''   '')" by code_simp
  have A: "convert Map.empty (conversion_request (JStr ''abc'') ''   '' ''km'') =
     error_response 422
       [(''error'', JStr ''value must be a number''), (''provided'', JStr ''abc'')]"
    using validation_order [OF a, THEN conjunct1] p1 by simp
  have B: "convert Map.empty (conversion_request (JInt 5) ''   '' ''km'') =
     error_response 422
       [(''error'', JStr ''from_unit must be a non-empty string''),
        (''provided'', JStr ''   '')]"
    using validation_order [OF b, THEN conjunct2, THEN conjunct1] p2 n by simp
  show ?thesis using a p1 n A b p2 B by (intro conjI)
qed

text \<open>
  The order the specification gives (units first) fails on a request whose value is
  \<open>null\<close> and whose \<open>from_unit\<close> is the empty string: the error reported is the one
  for the value.
\<close>

theorem validation_order_counterexample:
  "py_float Map.empty JNull = None \<and>
   \<not> nonempty_str (JStr '''') \<and>
   convert Map.empty (conversion_request JNull '''' ''km'') =
     error_response 422 [(''error'', JStr ''value must be a number''), (''provided'', JNull)] \<and>
   convert Map.empty (conversion_request JNull '''' ''km'') \<noteq>
     error_response 422
       [(''error'', JStr ''from_unit must be a non-empty string''), (''provided'', JStr '''')]"
  by code_simp

subsection \<open>C7: the echo of the unit strings\<close>

lemma status_of_error_response: "status_of (error_response s p) = s"
  by (simp add: status_of_def error_response_def)

lemma do_conversion_Inl_status:
  assumes "do_conversion ft a b x = Inl r"
  shows "status_of r = 400 \<or> status_of r = 500"
proof -
  have "\<And>y. returned y \<noteq> Inr (Inl r)" by (simp add: returned_def split: sum.splits)
  then show ?thesis
    using assms unfolding do_conversion_def
    by (auto simp: status_of_error_response split: if_splits sum.splits)
qed

lemma convert_units_200:
  assumes "status_of (convert_units x f t) = 200"
  shows "response_field (convert_units x f t) ''original_unit'' = Some (JStr f) \<and>
    response_field (convert_units x f t) ''converted_unit'' = Some (JStr t)"
proof -
  have d: "\<And>ft a b r. do_conversion ft a b x = Inl r \<Longrightarrow> status_of r \<noteq> 200"
    using do_conversion_Inl_status by fastforce
  show ?thesis
    using assms unfolding convert_units_def
    by (auto simp: status_of_error_response response_field_def jsonify_def
        split: option.splits if_splits sum.splits dest: d)
qed

lemma convert_fields_200:
  assumes "status_of (convert_fields P v f t) = 200"
  shows "nonempty_str f \<and> nonempty_str t \<and>
    (\<exists>x. convert_fields P v f t = convert_units x (str_strip f) (str_strip t))"
  using assms unfolding convert_fields_def
  by (auto simp: status_of_error_response split: option.splits if_splits)

lemma nonempty_str_cases:
  assumes "nonempty_str j"
  shows "\<exists>s. j = JStr s \<and> str_strip j = strip s"
  using assms by (cases j) (simp_all add: nonempty_str_def str_strip_def)

text \<open>
  Claim C7, as the code has it. The handler replaces each unit string by its trimmed
  form before the lookup and echoes that: in every response of status 200 both unit
  fields of the request are strings, and \<open>original_unit\<close> and \<open>converted_unit\<close> are
  the caller's \<open>from_unit\<close> and \<open>to_unit\<close> with leading and trailing whitespace
  removed, case preserved; they are not lowered and not replaced by the canonical code.
\<close>

theorem echo_trimmed_units:
  assumes "field req ''value'' = Some v"
    and "field req ''from_unit'' = Some f"
    and "field req ''to_unit'' = Some t"
    and "status_of (convert P req) = 200"
  shows "\<exists>fs ts. f = JStr fs \<and> t = JStr ts \<and>
    response_field (convert P req) ''original_unit'' = Some (JStr (strip fs)) \<and>
    response_field (convert P req) ''converted_unit'' = Some (JStr (strip ts))"
proof -
  note c = convert_eq_convert_fields [OF assms(1-3), of P]
  from assms(4) have s: "status_of (convert_fields P v f t) = 200" unfolding c .
  from convert_fields_200 [OF s] obtain x where
    n: "nonempty_str f" "nonempty_str t"
    and e: "convert_fields P v f t = convert_units x (str_strip f) (str_strip t)"
    by blast
  obtain fs where fs: "f = JStr fs" "str_strip f = strip fs"
    using nonempty_str_cases [OF n(1)] by blast
  obtain ts where ts: "t = JStr ts" "str_strip t = strip ts"
    using nonempty_str_cases [OF n(2)] by blast
  from s have "status_of (convert_units x (strip fs) (strip ts)) = 200"
    unfolding e fs(2) ts(2) .
  from convert_units_200 [OF this] fs(1) ts(1) show ?thesis
    unfolding c e fs(2) ts(2) by blast
qed

theorem echo_trimmed_units_witness:
  "field (conversion_request (JInt 5) '' Miles '' ''KM'') ''value'' = Some (JInt 5) \<and>
   field (conversion_request (JInt 5) '' Miles '' ''KM'') ''from_unit'' = Some (JStr '' Miles '') \<and>
   field (conversion_request (JInt 5) '' Miles '' ''KM'') ''to_unit'' = Some (JStr ''KM'') \<and>
   status_of (convert Map.empty (conversion_request (JInt 5) '' Miles '' ''KM'')) = 200 \<and>
   response_field (convert Map.empty (conversion_request (JInt 5) '' Miles '' ''KM''))
     ''original_unit'' = Some (JStr ''Miles'') \<and>
   response_field (convert Map.empty (conversion_request (JInt 5) '' Miles '' ''KM''))
     ''converted_unit'' = Some (JStr ''KM'')"
proof -
  let ?req = "conversion_request (JInt 5) '' Miles '' ''KM''"
  note h = field_conversion_request [of "JInt 5" "'' Miles ''" "''KM''"]
  have st: "status_of (convert Map.empty ?req) = 200" by code_simp
  have s: "strip '' Miles '' = ''Miles''" "strip ''KM'' = ''KM''" by code_simp+
  from echo_trimmed_units [OF h st] obtain fs ts where
    e: "JStr '' Miles '' = JStr fs" "JStr ''KM'' = JStr ts"
    and r: "response_field (convert Map.empty ?req) ''original_unit'' = Some (JStr (strip fs))"
      "response_field (convert Map.empty ?req) ''converted_unit'' = Some (JStr (strip ts))"
    by blast
  have "fs = '' Miles ''" "ts = ''KM''" using e by simp_all
  then have "response_field (convert Map.empty ?req) ''original_unit'' = Some (JStr ''Miles'')"
    "response_field (convert Map.empty ?req) ''converted_unit'' = Some (JStr ''KM'')"
    using r s by simp_all
  with h st show ?thesis by (intro conjI)
qed

text \<open>
  The untrimmed string is not echoed: \<open>from_unit\<close> \<open>" mi "\<close> comes back as
  \<open>"mi"\<close>.
\<close>

theorem echo_untrimmed_counterexample:
  "status_of (convert Map.empty (conversion_request (JInt 5) '' mi '' ''km'')) = 200 \<and>
   response_field (convert Map.empty (conversion_request (JInt 5) '' mi '' ''km''))
     ''original_unit'' = Some (JStr ''mi'') \<and>
   JStr ''mi'' \<noteq> JStr '' mi ''"
  by code_simp

subsection \<open>C8: closed dispatch\<close>

lemma response_field_error_response:
  "response_field (error_response s ((''error'', e) # p)) ''error'' = Some e"
  by (simp add: response_field_def error_response_def)

lemma response_field_jsonify_error:
  "response_field (jsonify
      [(''original_value'', ov), (''original_unit'', ou), (''converted_value'', cv),
       (''converted_unit'', cu), (''conversion_type'', ct)]) ''error'' = None"
  by (simp add: response_field_def jsonify_def)

lemma convert_units_live:
  "response_field (convert_units x f t) ''error'' \<in> live_errors"
proof (cases "get_unit_type f")
  case None
  then show ?thesis
    by (simp add: convert_units_def response_field_error_response live_errors_def)
next
  case (Some ft)
  note ft = this
  show ?thesis
  proof (cases "get_unit_type t")
    case None
    with ft show ?thesis
      by (simp add: convert_units_def response_field_error_response live_errors_def)
  next
    case (Some tt)
    show ?thesis
    proof (cases "ft = tt")
      case False
      with ft Some show ?thesis
        by (simp add: convert_units_def response_field_error_response live_errors_def)
    next
      case True
      obtain a where a: "normalize f = Some a" "category_of_code a = Some ft"
        using get_unit_type_normalize [OF ft] by blast
      obtain b where b: "normalize t = Some b" "category_of_code b = Some ft"
        using get_unit_type_normalize [OF Some] True by blast
      obtain c where c: "do_conversion ft a b x = Inr c"
        using do_conversion_total [OF a(2) b(2)] by blast
      show ?thesis
        unfolding convert_units_valid [OF a(1) b(1) a(2) b(2)] c
        by (simp add: response_field_error_response response_field_jsonify_error
            live_errors_def)
    qed
  qed
qed

lemma convert_fields_live:
  "response_field (convert_fields P v f t) ''error'' \<in> live_errors"
proof (cases "py_float P v")
  case None
  then show ?thesis
    by (simp add: convert_fields_def response_field_error_response live_errors_def)
next
  case (Some x)
  show ?thesis
  proof (cases "nonempty_str f \<and> nonempty_str t")
    case True
    then have "convert_fields P v f t = convert_units x (str_strip f) (str_strip t)"
      using Some by (simp add: convert_fields_def)
    then show ?thesis using convert_units_live by simp
  next
    case False
    then show ?thesis
      using Some
      by (auto simp: convert_fields_def response_field_error_response live_errors_def)
  qed
qed

lemma convert_live:
  "response_field (convert P req) ''error'' \<in> live_errors"
proof (cases "is_json req")
  case False
  then show ?thesis
    by (simp add: convert_def response_field_error_response live_errors_def)
next
  case True
  note j = this
  show ?thesis
  proof (cases "py_in ''value'' (get_json req)")
    case None
    then show ?thesis
      using j by (simp add: convert_def response_field_def live_errors_def)
  next
    case (Some y)
    let ?missing = "filter (\<lambda>f. py_in f (get_json req) = Some False)
      [''value'', ''from_unit'', ''to_unit'']"
    show ?thesis
    proof (cases "?missing = []")
      case False
      then have "convert P req = error_response 422
             [(''error'', JStr ''Missing fields''), (''missing'', JArr (map JStr ?missing))]"
        using j Some unfolding convert_def Let_def by simp
      then show ?thesis by (simp add: response_field_error_response live_errors_def)
    next
      case True
      note m = this
      show ?thesis
      proof (cases "get_json req")
        case (JObj kvs)
        have "convert P req = convert_fields P (dict_get kvs ''value'')
            (dict_get kvs ''from_unit'') (dict_get kvs ''to_unit'')"
          using j Some m unfolding convert_def Let_def JObj by simp
        then show ?thesis using convert_fields_live by simp
      qed (use j Some m in \<open>simp_all add: convert_def Let_def response_field_def live_errors_def\<close>)
    qed
  qed
qed

lemma dispatch_reached:
  assumes "get_unit_type f = Some cat" and "get_unit_type t = Some cat"
  shows "\<exists>a b c. normalize f = Some a \<and> normalize t = Some b \<and>
    spec_convert_binary64 a b x = Some c \<and> do_conversion cat a b x = Inr c"
proof -
  obtain a where a: "normalize f = Some a" "category_of_code a = Some cat"
    using get_unit_type_normalize [OF assms(1)] by blast
  obtain b where b: "normalize t = Some b" "category_of_code b = Some cat"
    using get_unit_type_normalize [OF assms(2)] by blast
  from do_conversion_spec [OF a(2) b(2), of x] a(1) b(1) show ?thesis by blast
qed

lemma live_not_dead:
  assumes "e \<in> live_errors"
  shows "e \<notin>
      {Some (JStr ''Unsupported length conversion pair''),
       Some (JStr ''Unsupported weight conversion pair''),
       Some (JStr ''Unsupported temperature conversion pair''),
       Some (JStr ''Unhandled unit type''),
       Some (JStr ''Unit normalization failed''),
       Some (JStr ''Exception during conversion'')}"
  using assms unfolding live_errors_def by auto

text \<open>
  Claim C8. Once both units are recognised with one category, both normalise and the
  conversion step leaves a value: the value itself when the two codes are equal, and
  otherwise the formula of the pair of codes. So no request, whatever its body, is
  answered with one of the three \<open>Unsupported ... conversion pair\<close> messages, with
  \<open>Unhandled unit type\<close>, with \<open>Unit normalization failed\<close> or with
  \<open>Exception during conversion\<close>: these branches of the handler are unreachable.
\<close>

theorem closed_dispatch:
  "response_field (convert P req) ''error'' \<notin>
      {Some (JStr ''Unsupported length conversion pair''),
       Some (JStr ''Unsupported weight conversion pair''),
       Some (JStr ''Unsupported temperature conversion pair''),
       Some (JStr ''Unhandled unit type''),
       Some (JStr ''Unit normalization failed''),
       Some (JStr ''Exception during conversion'')} \<and>
   (get_unit_type f = Some cat \<and> get_unit_type t = Some cat \<longrightarrow>
      (\<exists>a b c. normalize f = Some a \<and> normalize t = Some b \<and>
         spec_convert_binary64 a b x = Some c \<and> do_conversion cat a b x = Inr c))"
  using live_not_dead [OF convert_live [of P req]] dispatch_reached [of f cat t x]
  by (intro conjI impI) blast+

theorem closed_dispatch_witness:
  "response_field (convert Map.empty (conversion_request (JInt 5) ''mi'' ''km'')) ''error'' \<notin>
      {Some (JStr ''Unsupported length conversion pair''),
       Some (JStr ''Unsupported weight conversion pair''),
       Some (JStr ''Unsupported temperature conversion pair''),
       Some (JStr ''Unhandled unit type''),
       Some (JStr ''Unit normalization failed''),
       Some (JStr ''Exception during conversion'')} \<and>
   get_unit_type ''mi'' = Some ''length'' \<and> get_unit_type ''km'' = Some ''length'' \<and>
   (\<exists>a b c. normalize ''mi'' = Some a \<and> normalize ''km'' = Some b \<and>
      spec_convert_binary64 a b (Finite 5) = Some c \<and>
      do_conversion ''length'' a b (Finite 5) = Inr c) \<and>
   normalize ''mi'' = Some ''mi'' \<and> normalize ''km'' = Some ''km'' \<and>
   do_conversion ''length'' ''mi'' ''km'' (Finite 5) = Inr (binary64 8.04672)"
proof -
  note t = closed_dispatch [of Map.empty "conversion_request (JInt 5) ''mi'' ''km''"
      "''mi''" "''length''" "''km''" "Finite 5"]
  have g: "get_unit_type ''mi'' = Some ''length''" "get_unit_type ''km'' = Some ''length''"
    by code_simp+
  have n: "normalize ''mi'' = Some ''mi''" "normalize ''km'' = Some ''km''" by code_simp+
  have d: "do_conversion ''length'' ''mi'' ''km'' (Finite 5) = Inr (binary64 8.04672)"
    by code_simp
  have 1: "response_field (convert Map.empty (conversion_request (JInt 5) ''mi'' ''km'')) ''error'' \<notin>
      {Some (JStr ''Unsupported length conversion pair''),
       Some (JStr ''Unsupported weight conversion pair''),
       Some (JStr ''Unsupported temperature conversion pair''),
       Some (JStr ''Unhandled unit type''),
       Some (JStr ''Unit normalization failed''),
       Some (JStr ''Exception during conversion'')}"
    using t by (rule conjunct1)
  have 2: "\<exists>a b c. normalize ''mi'' = Some a \<and> normalize ''km'' = Some b \<and>
      spec_convert_binary64 a b (Finite 5) = Some c \<and>
      do_conversion ''length'' a b (Finite 5) = Inr c"
    using t [THEN conjunct2] g by simp
  show ?thesis using 1 g 2 n d by (intro conjI)
qed

subsection \<open>C9: spelling congruence\<close>

lemma convert_units_congruence:
  assumes "get_unit_type f1 = get_unit_type f2" and "normalize f1 = normalize f2"
    and "get_unit_type t1 = get_unit_type t2" and "normalize t1 = normalize t2"
  shows "outcome (convert_units x f1 t1) = outcome (convert_units x f2 t2)"
  unfolding convert_units_def assms outcome_def
  by (simp add: status_of_def response_field_def error_response_def jsonify_def
      split: option.splits sum.splits)

lemma normalize_eq_get_unit_type:
  assumes "normalize u1 = Some a" and "normalize u2 = Some a"
  shows "get_unit_type u1 = get_unit_type u2"
  using normalize_get_unit_type(1) [OF assms(1)] normalize_get_unit_type(1) [OF assms(2)]
  by simp

lemma nonempty_str_normalized:
  assumes "normalize (strip s) = Some a"
  shows "nonempty_str (JStr s)" and "str_strip (JStr s) = strip s"
  using normalize_nonempty [OF assms] by (simp_all add: nonempty_str_def str_strip_def)

lemma convert_fields_congruence_from:
  assumes "normalize (strip s1) = Some a" and "normalize (strip s2) = Some a"
  shows "outcome (convert_fields P v (JStr s1) t) = outcome (convert_fields P v (JStr s2) t)"
proof (cases "py_float P v")
  case None
  then show ?thesis by (simp add: convert_fields_def outcome_def status_of_def
        response_field_def error_response_def)
next
  case (Some x)
  note ne = nonempty_str_normalized [OF assms(1)] nonempty_str_normalized [OF assms(2)]
  show ?thesis
  proof (cases "nonempty_str t")
    case False
    then show ?thesis using Some ne
      by (simp add: convert_fields_def outcome_def status_of_def
          response_field_def error_response_def)
  next
    case True
    have "convert_fields P v (JStr s1) t = convert_units x (strip s1) (str_strip t)"
      "convert_fields P v (JStr s2) t = convert_units x (strip s2) (str_strip t)"
      using Some ne True by (simp_all add: convert_fields_def)
    then show ?thesis
      using convert_units_congruence [OF normalize_eq_get_unit_type [OF assms] _ refl refl]
        assms by simp
  qed
qed

lemma convert_fields_congruence_to:
  assumes "normalize (strip s1) = Some b" and "normalize (strip s2) = Some b"
  shows "outcome (convert_fields P v f (JStr s1)) = outcome (convert_fields P v f (JStr s2))"
proof (cases "py_float P v")
  case None
  then show ?thesis by (simp add: convert_fields_def outcome_def status_of_def
        response_field_def error_response_def)
next
  case (Some x)
  note ne = nonempty_str_normalized [OF assms(1)] nonempty_str_normalized [OF assms(2)]
  show ?thesis
  proof (cases "nonempty_str f")
    case False
    then show ?thesis using Some
      by (simp add: convert_fields_def outcome_def status_of_def
          response_field_def error_response_def)
  next
    case True
    have "convert_fields P v f (JStr s1) = convert_units x (str_strip f) (strip s1)"
      "convert_fields P v f (JStr s2) = convert_units x (str_strip f) (strip s2)"
      using Some ne True by (simp_all add: convert_fields_def)
    then show ?thesis
      using convert_units_congruence [OF refl refl normalize_eq_get_unit_type [OF assms]]
        assms by simp
  qed
qed

text \<open>
  Claim C9. Two unit strings that normalise, after trimming and lowering, to the same
  canonical code can stand for each other: replacing one by the other in \<open>from_unit\<close>,
  or in \<open>to_unit\<close>, with the same value and the same other unit field, gives a
  response with the same status, the same error message if any, and the same
  \<open>original_value\<close>, \<open>converted_value\<close> and \<open>conversion_type\<close>.
\<close>

theorem spelling_congruence:
  assumes "field r1 ''value'' = Some v" and "field r2 ''value'' = Some v"
    and "normalize (strip s1) = Some c" and "normalize (strip s2) = Some c"
  shows "(field r1 ''from_unit'' = Some (JStr s1) \<and> field r2 ''from_unit'' = Some (JStr s2) \<and>
      field r1 ''to_unit'' = Some u \<and> field r2 ''to_unit'' = Some u \<longrightarrow>
        outcome (convert P r1) = outcome (convert P r2)) \<and>
    (field r1 ''to_unit'' = Some (JStr s1) \<and> field r2 ''to_unit'' = Some (JStr s2) \<and>
      field r1 ''from_unit'' = Some u \<and> field r2 ''from_unit'' = Some u \<longrightarrow>
        outcome (convert P r1) = outcome (convert P r2))"
proof (intro conjI impI; elim conjE)
  assume a: "field r1 ''from_unit'' = Some (JStr s1)" "field r2 ''from_unit'' = Some (JStr s2)"
    "field r1 ''to_unit'' = Some u" "field r2 ''to_unit'' = Some u"
  show "outcome (convert P r1) = outcome (convert P r2)"
    unfolding convert_eq_convert_fields [OF assms(1) a(1,3)]
      convert_eq_convert_fields [OF assms(2) a(2,4)]
    by (rule convert_fields_congruence_from [OF assms(3,4)])
next
  assume a: "field r1 ''to_unit'' = Some (JStr s1)" "field r2 ''to_unit'' = Some (JStr s2)"
    "field r1 ''from_unit'' = Some u" "field r2 ''from_unit'' = Some u"
  show "outcome (convert P r1) = outcome (convert P r2)"
    unfolding convert_eq_convert_fields [OF assms(1) a(3,1)]
      convert_eq_convert_fields [OF assms(2) a(4,2)]
    by (rule convert_fields_congruence_to [OF assms(3,4)])
qed

theorem spelling_congruence_witness:
  "field (conversion_request (JInt 5) ''miles'' ''km'') ''value'' = Some (JInt 5) \<and>
   field (conversion_request (JInt 5) '' MI '' ''km'') ''value'' = Some (JInt 5) \<and>
   normalize (strip ''miles'') = Some ''mi'' \<and> normalize (strip '' MI '') = Some ''mi'' \<and>
   field (conversion_request (JInt 5) ''miles'' ''km'') ''from_unit'' = Some (JStr ''miles'') \<and>
   field (conversion_request (JInt 5) '' MI '' ''km'') ''from_unit'' = Some (JStr '' MI '') \<and>
   field (conversion_request (JInt 5) ''miles'' ''km'') ''to_unit'' = Some (JStr ''km'') \<and>
   field (conversion_request (JInt 5) '' MI '' ''km'') ''to_unit'' = Some (JStr ''km'') \<and>
   outcome (convert Map.empty (conversion_request (JInt 5) ''miles'' ''km'')) =
     outcome (convert Map.empty (conversion_request (JInt 5) '' MI '' ''km'')) \<and>
   outcome (convert Map.empty (conversion_request (JInt 5) '' MI '' ''km'')) =
     (200, None, Some (JFloat (Finite 5)), Some (JFloat (binary64 8.04672)),
      Some (JStr ''length'')) \<and>
   field (conversion_request (JInt 5) ''km'' ''Mile'') ''value'' = Some (JInt 5) \<and>
   field (conversion_request (JInt 5) ''km'' ''mi'') ''value'' = Some (JInt 5) \<and>
   normalize (strip ''Mile'') = Some ''mi'' \<and> normalize (strip ''mi'') = Some ''mi'' \<and>
   field (conversion_request (JInt 5) ''km'' ''Mile'') ''to_unit'' = Some (JStr ''Mile'') \<and>
   field (conversion_request (JInt 5) ''km'' ''mi'') ''to_unit'' = Some (JStr ''mi'') \<and>
   field (conversion_request (JInt 5) ''km'' ''Mile'') ''from_unit'' = Some (JStr ''km'') \<and>
   field (conversion_request (JInt 5) ''km'' ''mi'') ''from_unit'' = Some (JStr ''km'') \<and>
   outcome (convert Map.empty (conversion_request (JInt 5) ''km'' ''Mile'')) =
     outcome (convert Map.empty (conversion_request (JInt 5) ''km'' ''mi''))"
proof -
  note a1 = field_conversion_request [of "JInt 5" "''miles''" "''km''"]
  note a2 = field_conversion_request [of "JInt 5" "'' MI ''" "''km''"]
  note b1 = field_conversion_request [of "JInt 5" "''km''" "''Mile''"]
  note b2 = field_conversion_request [of "JInt 5" "''km''" "''mi''"]
  have n: "normalize (strip ''miles'') = Some ''mi''" "normalize (strip '' MI '') = Some ''mi''"
    "normalize (strip ''Mile'') = Some ''mi''" "normalize (strip ''mi'') = Some ''mi''"
    by code_simp+
  have A: "outcome (convert Map.empty (conversion_request (JInt 5) ''miles'' ''km'')) =
     outcome (convert Map.empty (conversion_request (JInt 5) '' MI '' ''km''))"
    using spelling_congruence [OF a1(1) a2(1) n(1,2), THEN conjunct1] a1 a2 by simp
  have V: "outcome (convert Map.empty (conversion_request (JInt 5) '' MI '' ''km'')) =
     (200, None, Some (JFloat (Finite 5)), Some (JFloat (binary64 8.04672)),
      Some (JStr ''length''))"
    by code_simp
  have B: "outcome (convert Map.empty (conversion_request (JInt 5) ''km'' ''Mile'')) =
     outcome (convert Map.empty (conversion_request (JInt 5) ''km'' ''mi''))"
    using spelling_congruence [OF b1(1) b2(1) n(3,4), THEN conjunct2] b1 b2 by simp
  show ?thesis
    using a1 a2 n A V b1 b2 B by (intro conjI)
qed

subsection \<open>C10: a boolean value is coerced\<close>

lemma boolean_length:
  "py_round (the (spec_formula_binary64 ''mi'' ''km'' (Finite 0))) 6 =
     py_round (Finite (the (spec_formula ''mi'' ''km'' 0))) 6"
  "py_round (the (spec_formula_binary64 ''mi'' ''km'' (Finite 1))) 6 =
     py_round (Finite (the (spec_formula ''mi'' ''km'' 1))) 6"
  "py_round (the (spec_formula_binary64 ''km'' ''mi'' (Finite 0))) 6 =
     py_round (Finite (the (spec_formula ''km'' ''mi'' 0))) 6"
  "py_round (the (spec_formula_binary64 ''km'' ''mi'' (Finite 1))) 6 =
     py_round (Finite (the (spec_formula ''km'' ''mi'' 1))) 6"
  by code_simp+

lemma boolean_weight:
  "py_round (the (spec_formula_binary64 ''lb'' ''kg'' (Finite 0))) 6 =
     py_round (Finite (the (spec_formula ''lb'' ''kg'' 0))) 6"
  "py_round (the (spec_formula_binary64 ''lb'' ''kg'' (Finite 1))) 6 =
     py_round (Finite (the (spec_formula ''lb'' ''kg'' 1))) 6"
  "py_round (the (spec_formula_binary64 ''kg'' ''lb'' (Finite 0))) 6 =
     py_round (Finite (the (spec_formula ''kg'' ''lb'' 0))) 6"
  "py_round (the (spec_formula_binary64 ''kg'' ''lb'' (Finite 1))) 6 =
     py_round (Finite (the (spec_formula ''kg'' ''lb'' 1))) 6"
  by code_simp+

lemma boolean_temperature:
  "py_round (the (spec_formula_binary64 ''c'' ''f'' (Finite 0))) 6 =
     py_round (Finite (the (spec_formula ''c'' ''f'' 0))) 6"
  "py_round (the (spec_formula_binary64 ''c'' ''f'' (Finite 1))) 6 =
     py_round (Finite (the (spec_formula ''c'' ''f'' 1))) 6"
  "py_round (the (spec_formula_binary64 ''f'' ''c'' (Finite 0))) 6 =
     py_round (Finite (the (spec_formula ''f'' ''c'' 0))) 6"
  "py_round (the (spec_formula_binary64 ''f'' ''c'' (Finite 1))) 6 =
     py_round (Finite (the (spec_formula ''f'' ''c'' 1))) 6"
  by code_simp+

lemma boolean_conversion:
  assumes "category_of_code a = Some cat" and "category_of_code b = Some cat"
    and "q = 0 \<or> q = 1"
    and "spec_convert a b q = Some r"
    and "spec_convert_binary64 a b (Finite q) = Some c"
  shows "py_round c 6 = py_round (Finite r) 6"
proof (cases "a = b")
  case True
  then show ?thesis using assms(4,5) by (simp add: spec_convert_def spec_convert_binary64_def)
next
  case False
  have f: "spec_formula a b q = Some r" "spec_formula_binary64 a b (Finite q) = Some c"
    using assms(4,5) False by (simp_all add: spec_convert_def spec_convert_binary64_def)
  have "py_round (the (spec_formula_binary64 a b (Finite q))) 6 =
     py_round (Finite (the (spec_formula a b q))) 6"
    using distinct_codes_cases [OF assms(1,2) False] assms(3)
    by (elim disjE conjE) (simp_all only: boolean_length boolean_weight boolean_temperature)
  then show ?thesis unfolding f option.sel .
qed

text \<open>
  Claim C10. \<open>float(True)\<close> is \<open>1.0\<close> and \<open>float(False)\<close> is \<open>0.0\<close>, so a request
  whose value is a JSON boolean and whose units are recognised and of one category is
  not rejected: it is answered with status 200, \<open>original_value\<close> \<open>1.0\<close> or
  \<open>0.0\<close>, and the conversion of that number.
\<close>

theorem convert_accepts_boolean:
  assumes "field req ''value'' = Some (JBool bv)"
    and "field req ''from_unit'' = Some (JStr f)"
    and "field req ''to_unit'' = Some (JStr t)"
    and "normalize (strip f) = Some a" and "normalize (strip t) = Some b"
    and "category_of_code a = Some cat" and "category_of_code b = Some cat"
  shows "\<exists>r. spec_convert a b (if bv then 1 else 0) = Some r \<and>
    convert P req =
      jsonify
        [(''original_value'', JFloat (Finite (if bv then 1 else 0))),
         (''original_unit'', JStr (strip f)),
         (''converted_value'', JFloat (py_round (Finite r) 6)),
         (''converted_unit'', JStr (strip t)),
         (''conversion_type'', JStr cat)]"
proof -
  let ?q = "if bv then 1 else 0 :: rat"
  obtain r where r: "spec_convert a b ?q = Some r"
    using spec_convert_defined [OF assms(6,7)] by blast
  obtain c where c: "spec_convert_binary64 a b (Finite ?q) = Some c"
    "do_conversion cat a b (Finite ?q) = Inr c"
    using do_conversion_spec [OF assms(6,7)] by blast
  have e: "py_round c 6 = py_round (Finite r) 6"
    by (rule boolean_conversion [OF assms(6,7) _ r c(1)]) simp
  have p: "py_float P (JBool bv) = Some (Finite ?q)" by (simp add: py_float_def)
  have n: "\<not> ((cat = ''length'' \<or> cat = ''weight'') \<and> float_lt0 (Finite ?q))"
    by (simp add: float_lt0_def)
  from convert_valid [OF assms(1-3) p assms(4-7) n c(2)] r show ?thesis
    unfolding e by blast
qed

theorem convert_accepts_boolean_witness:
  "field (conversion_request (JBool True) ''lb'' ''Kilograms'') ''value'' = Some (JBool True) \<and>
   field (conversion_request (JBool True) ''lb'' ''Kilograms'') ''from_unit'' = Some (JStr ''lb'') \<and>
   field (conversion_request (JBool True) ''lb'' ''Kilograms'') ''to_unit'' =
     Some (JStr ''Kilograms'') \<and>
   normalize (strip ''lb'') = Some ''lb'' \<and> normalize (strip ''Kilograms'') = Some ''kg'' \<and>
   category_of_code ''lb'' = Some ''weight'' \<and> category_of_code ''kg'' = Some ''weight'' \<and>
   spec_convert ''lb'' ''kg'' 1 = Some 0.45359237 \<and>
   convert Map.empty (conversion_request (JBool True) ''lb'' ''Kilograms'') =
      jsonify
        [(''original_value'', JFloat (Finite 1)),
         (''original_unit'', JStr ''lb''),
         (''converted_value'', JFloat (binary64 0.453592)),
         (''converted_unit'', JStr ''Kilograms''),
         (''conversion_type'', JStr ''weight'')]"
proof -
  let ?req = "conversion_request (JBool True) ''lb'' ''Kilograms''"
  have h1: "field ?req ''value'' = Some (JBool True)"
    and h2: "field ?req ''from_unit'' = Some (JStr ''lb'')"
    and h3: "field ?req ''to_unit'' = Some (JStr ''Kilograms'')"
    by (simp_all add: field_def conversion_request_def)
  have h4: "normalize (strip ''lb'') = Some ''lb''" by code_simp
  have h5: "normalize (strip ''Kilograms'') = Some ''kg''" by code_simp
  have h6: "category_of_code ''lb'' = Some ''weight''"
    and h7: "category_of_code ''kg'' = Some ''weight''"
    by (simp_all add: category_of_code_def unit_codes_def)
  have f: "spec_convert ''lb'' ''kg'' 1 = Some 0.45359237"
    by (simp add: spec_convert_def spec_formula_def)
  have s: "strip ''lb'' = ''lb''" "strip ''Kilograms'' = ''Kilograms''" by code_simp+
  have r: "py_round (Finite 0.45359237) 6 = binary64 0.453592" by code_simp
  from convert_accepts_boolean [OF h1 h2 h3 h4 h5 h6 h7, of Map.empty]
  obtain r' where a: "spec_convert ''lb'' ''kg'' (if True then 1 else 0) = Some r'"
    and c: "convert Map.empty ?req =
      jsonify
        [(''original_value'', JFloat (Finite (if True then 1 else 0))),
         (''original_unit'', JStr (strip ''lb'')),
         (''converted_value'', JFloat (py_round (Finite r') 6)),
         (''converted_unit'', JStr (strip ''Kilograms'')),
         (''conversion_type'', JStr ''weight'')]"
    by blast
  have e: "r' = 0.45359237" using a unfolding if_True f option.inject by (rule sym)
  show ?thesis
    using h1 h2 h3 h4 h5 h6 h7 f c [unfolded e s r if_True] by (intro conjI)
qed

end
